theory Spec2Isabelle
  imports Complex_Main
begin

section \<open>Common data: exceptions and arrays\<close>

text \<open>
  Python exceptions are values. \<open>NotFinite\<close> is not an exception: numpy divides by zero
  with a warning and stores nan or inf; the reals of this development have no such
  values, so a run whose arrays would hold one ends in \<open>NotFinite\<close>.
  Floating-point numbers are idealised as reals throughout.
\<close>

datatype error =
    NameError string
  | AttributeError string
  | ValueError string
  | TypeError string
  | IndexError string
  | NotFinite

type_synonym vec = "real list"
type_synonym mat = "real list list"

text \<open>A numpy array of any rank, as its shape and its elements in C order.\<close>

datatype ndarray = Nd (shape: "nat list") (flat: "real list")

definition ndim :: "ndarray \<Rightarrow> nat" where
  "ndim a = length (shape a)"

text \<open>Running a fallible function over a list, stopping at the first exception.\<close>

fun mapE :: "('a \<Rightarrow> error + 'b) \<Rightarrow> 'a list \<Rightarrow> error + 'b list" where
  "mapE f [] = Inr []"
| "mapE f (x # xs) =
     (case f x of
        Inl e \<Rightarrow> Inl e
      | Inr y \<Rightarrow> (case mapE f xs of Inl e \<Rightarrow> Inl e | Inr ys \<Rightarrow> Inr (y # ys)))"

section \<open>M-DyNeMo observation model: \<open>Config\<close> (ohba_models/models/mdynemo_obs.py)\<close>

text \<open>
  The dataclass \<open>Config\<close>. The three booleans default to \<open>None\<close>. The fields of
  \<open>BaseModelConfig\<close> live in the extension part of the record.
\<close>

record config =
  multiple_dynamics :: bool
  learn_means :: "bool option"
  learn_stds :: "bool option"
  learn_fcs :: "bool option"
  initial_means :: "mat option"
  initial_stds :: "mat option"
  initial_fcs :: "mat list option"

definition validate_observation_model_parameters :: "'a config_scheme \<Rightarrow> error + unit" where
  "validate_observation_model_parameters c =
     (if learn_means c = None \<or> learn_stds c = None \<or> learn_fcs c = None
      then Inl (ValueError ''learn_means, learn_stds and learn_fcs must be passed.'')
      else Inr ())"

text \<open>
  \<open>__post_init__\<close> runs the three validators in order. The last two belong to
  \<open>BaseModelConfig\<close>, which is not part of the sources at hand: they are parameters.
\<close>

definition post_init ::
  "('a config_scheme \<Rightarrow> error + unit) \<Rightarrow> ('a config_scheme \<Rightarrow> error + unit) \<Rightarrow>
   'a config_scheme \<Rightarrow> error + unit" where
  "post_init validate_dimension_parameters validate_training_parameters c =
     (case validate_observation_model_parameters c of
        Inl e \<Rightarrow> Inl e
      | Inr _ \<Rightarrow>
          (case validate_dimension_parameters c of
             Inl e \<Rightarrow> Inl e
           | Inr _ \<Rightarrow> validate_training_parameters c))"

text \<open>
  Constructing a \<open>Config\<close>: the generated \<open>__init__\<close> stores the fields and calls
  \<open>__post_init__\<close>; an exception there means that no object is returned.
\<close>

definition Config_new ::
  "('a config_scheme \<Rightarrow> error + unit) \<Rightarrow> ('a config_scheme \<Rightarrow> error + unit) \<Rightarrow>
   'a config_scheme \<Rightarrow> error + 'a config_scheme" where
  "Config_new validate_dimension_parameters validate_training_parameters c =
     (case post_init validate_dimension_parameters validate_training_parameters c of
        Inl e \<Rightarrow> Inl e
      | Inr _ \<Rightarrow> Inr c)"

section \<open>The \<open>Data\<close> container (vrad/data/_base.py)\<close>

text \<open>
  The \<open>subjects\<close> argument is a file name, a list (of file names or arrays) or a numpy
  array.
\<close>

datatype item = Filename string | Array ndarray

datatype subjects_arg = Str string | PyList "item list" | NdArray ndarray

definition check :: "subjects_arg \<Rightarrow> error + subjects_arg" where
  "check subjects0 =
     (let subjects = (case subjects0 of Str s \<Rightarrow> PyList [Filename s] | _ \<Rightarrow> subjects0)
      in case subjects of
           NdArray a \<Rightarrow>
             if ndim a \<noteq> 2 \<or> ndim a \<noteq> 3
             then Inl (ValueError
               ''A 2D (single subject) or 3D (multiple subject) array must be passed.'')
             else if ndim a = 2 then Inr (NdArray (Nd (1 # shape a) (flat a)))
             else Inr subjects
         | _ \<Rightarrow> Inr subjects)"

text \<open>\<open>len(subjects)\<close> and \<open>subjects[i]\<close> for a checked argument.\<close>

definition len_subjects :: "subjects_arg \<Rightarrow> nat" where
  "len_subjects s =
     (case s of
        Str t \<Rightarrow> length t
      | PyList xs \<Rightarrow> length xs
      | NdArray a \<Rightarrow> (case shape a of [] \<Rightarrow> 0 | n # _ \<Rightarrow> n))"

definition getitem :: "subjects_arg \<Rightarrow> nat \<Rightarrow> item" where
  "getitem s i =
     (case s of
        Str t \<Rightarrow> Filename [t ! i]
      | PyList xs \<Rightarrow> xs ! i
      | NdArray a \<Rightarrow>
          (let k = prod_list (tl (shape a))
           in Array (Nd (tl (shape a)) (take k (drop (i * k) (flat a))))))"

text \<open>
  The class \<open>Subject\<close> is not part of the sources at hand: its constructor is the
  parameter \<open>Subject\<close>, called with the name of the keyword that carries the identifier
  (\<open>_id\<close> in the constructor of \<open>Data\<close>, \<open>_ids\<close> in \<open>add\<close>), the time series, the
  identifier and the sampling frequency.
\<close>

record 'subj data =
  n_subjects :: nat
  subjects :: "'subj list"
  prepared :: bool

definition Data_init ::
  "(string \<Rightarrow> item \<Rightarrow> int \<Rightarrow> real \<Rightarrow> error + 'subj) \<Rightarrow> subjects_arg \<Rightarrow> real \<Rightarrow>
   error + 'subj data" where
  "Data_init Subject subjects0 sampling_frequency =
     (case check subjects0 of
        Inl e \<Rightarrow> Inl e
      | Inr subs \<Rightarrow>
          (let n = len_subjects subs
           in case mapE (\<lambda>i. Subject ''_id'' (getitem subs i) (int i + 1) sampling_frequency)
                     [0..<n] of
                Inl e \<Rightarrow> Inl e
              | Inr ss \<Rightarrow> Inr \<lparr>n_subjects = n, subjects = ss, prepared = False\<rparr>))"

text \<open>
  \<open>add\<close> mutates the object step by step, so the model returns the object as the call
  leaves it, together with the exception that ended the call, if any.
\<close>

fun add_loop ::
  "(string \<Rightarrow> item \<Rightarrow> int \<Rightarrow> real \<Rightarrow> error + 'subj) \<Rightarrow> real \<Rightarrow> subjects_arg \<Rightarrow>
   'subj data \<Rightarrow> nat list \<Rightarrow> 'subj data \<times> error option" where
  "add_loop Subject sf new d [] = (d, None)"
| "add_loop Subject sf new d (i # js) =
     (case Subject ''_ids'' (getitem new i) (int (n_subjects d) + int i + 1) sf of
        Inl e \<Rightarrow> (d, Some e)
      | Inr s \<Rightarrow> add_loop Subject sf new (d\<lparr>subjects := subjects d @ [s]\<rparr>) js)"

definition add ::
  "(string \<Rightarrow> item \<Rightarrow> int \<Rightarrow> real \<Rightarrow> error + 'subj) \<Rightarrow> 'subj data \<Rightarrow> subjects_arg \<Rightarrow> real \<Rightarrow>
   'subj data \<times> error option" where
  "add Subject d new_subjects0 sampling_frequency =
     (case check new_subjects0 of
        Inl e \<Rightarrow> (d, Some e)
      | Inr new \<Rightarrow>
          (let n_new = len_subjects new;
               d1 = d\<lparr>n_subjects := n_subjects d + n_new\<rparr>
           in add_loop Subject sampling_frequency new d1 [0..<n_new]))"

text \<open>
  \<open>prepare\<close>. The argument \<open>ids\<close> is an integer, a list or array of integers, or a
  string. The function \<open>prepare\<close> of \<open>vrad.data.manipulation\<close> is not part of the sources
  at hand: it is the parameter \<open>manipulation_prepare\<close>. The call returns the object and
  the warnings it logged; when it raises, nothing has been assigned yet.
\<close>

datatype ids_arg = IdsInt int | IdsList "int list" | IdsStr string

definition prepare ::
  "('subj list \<Rightarrow> int list \<Rightarrow> nat option \<Rightarrow> nat option \<Rightarrow> bool \<Rightarrow> int option \<Rightarrow>
      error + 'subj list) \<Rightarrow>
   'subj data \<Rightarrow> ids_arg \<Rightarrow> nat option \<Rightarrow> nat option \<Rightarrow> bool \<Rightarrow> int option \<Rightarrow>
   error + ('subj data \<times> string list)" where
  "prepare manipulation_prepare d ids0 n_embeddings n_pca_components whiten random_seed =
     (let ids1 = (case ids0 of IdsInt i \<Rightarrow> IdsList [i] | _ \<Rightarrow> ids0)
      in case (case ids1 of
                 IdsStr s \<Rightarrow>
                   if s = ''all'' then Inr (map int [1..<n_subjects d + 1])
                   else Inl (ValueError (''ids='' @ s @ '' unknown in data preparation.''))
               | IdsList l \<Rightarrow> Inr l
               | IdsInt i \<Rightarrow> Inr [i]) of
           Inl e \<Rightarrow> Inl e
         | Inr ids \<Rightarrow>
             if prepared d
             then Inr (d, [''Data has already been prepared. No changes made.''])
             else (case manipulation_prepare (subjects d) ids n_embeddings n_pca_components
                          whiten random_seed of
                     Inl e \<Rightarrow> Inl e
                   | Inr ss \<Rightarrow> Inr (d\<lparr>subjects := ss, prepared := True\<rparr>, [])))"

section \<open>Arrays of the simulation\<close>

text \<open>
  A two-dimensional array is the list of its rows, a three-dimensional one the list of
  its matrices; the dimensions a function needs are passed to it. Sums run over index
  ranges, as numpy's reductions do.
\<close>

definition mat_of :: "nat \<Rightarrow> nat \<Rightarrow> (nat \<Rightarrow> nat \<Rightarrow> real) \<Rightarrow> mat" where
  "mat_of n m f = map (\<lambda>i. map (\<lambda>j. f i j) [0..<m]) [0..<n]"

definition zeros2 :: "nat \<Rightarrow> nat \<Rightarrow> mat" where
  "zeros2 n m = mat_of n m (\<lambda>i j. 0)"

definition eye :: "nat \<Rightarrow> mat" where
  "eye n = mat_of n n (\<lambda>i j. if i = j then 1 else 0)"

definition transpose_mat :: "nat \<Rightarrow> mat \<Rightarrow> mat" where
  "transpose_mat n A = mat_of n n (\<lambda>i j. A ! j ! i)"

definition matmul :: "nat \<Rightarrow> mat \<Rightarrow> mat \<Rightarrow> mat" where
  "matmul n A B = mat_of n n (\<lambda>i j. \<Sum>k<n. A ! i ! k * B ! k ! j)"

definition mat_add :: "nat \<Rightarrow> mat \<Rightarrow> mat \<Rightarrow> mat" where
  "mat_add n A B = mat_of n n (\<lambda>i j. A ! i ! j + B ! i ! j)"

definition mat_scale :: "nat \<Rightarrow> mat \<Rightarrow> real \<Rightarrow> mat" where
  "mat_scale n A c = mat_of n n (\<lambda>i j. A ! i ! j * c)"

definition mat_div :: "nat \<Rightarrow> mat \<Rightarrow> real \<Rightarrow> mat" where
  "mat_div n A c = mat_of n n (\<lambda>i j. A ! i ! j / c)"

definition trace :: "nat \<Rightarrow> mat \<Rightarrow> real" where
  "trace n A = (\<Sum>i<n. A ! i ! i)"

text \<open>Broadcasting of one axis: an axis of length one is repeated.\<close>

definition bcast_ok :: "nat \<Rightarrow> nat \<Rightarrow> bool" where
  "bcast_ok a b = (a = b \<or> a = 1 \<or> b = 1)"

definition bdim :: "nat \<Rightarrow> nat \<Rightarrow> nat" where
  "bdim a b = (if a = 1 then b else a)"

definition bidx :: "nat \<Rightarrow> nat \<Rightarrow> nat" where
  "bidx n i = (if n = 1 then 0 else i)"

subsection \<open>Properties of matrices used by the claims\<close>

definition is_square :: "nat \<Rightarrow> mat \<Rightarrow> bool" where
  "is_square n A = (length A = n \<and> (\<forall>r \<in> set A. length r = n))"

definition symmetric :: "nat \<Rightarrow> mat \<Rightarrow> bool" where
  "symmetric n A = (\<forall>i<n. \<forall>j<n. A ! i ! j = A ! j ! i)"

definition quad_form :: "nat \<Rightarrow> mat \<Rightarrow> vec \<Rightarrow> real" where
  "quad_form n A x = (\<Sum>i<n. \<Sum>j<n. x ! i * A ! i ! j * x ! j)"

definition positive_definite :: "nat \<Rightarrow> mat \<Rightarrow> bool" where
  "positive_definite n A =
     (\<forall>x. length x = n \<and> (\<exists>i<n. x ! i \<noteq> 0) \<longrightarrow> 0 < quad_form n A x)"

definition positive_semidefinite :: "nat \<Rightarrow> mat \<Rightarrow> bool" where
  "positive_semidefinite n A = (\<forall>x. length x = n \<longrightarrow> 0 \<le> quad_form n A x)"

subsection \<open>The random number generator\<close>

text \<open>
  A numpy \<open>Generator\<close> is the stream of standard normal variates it is going to
  produce. A call that fills an array takes the variates in C order and leaves the
  stream after them.
\<close>

type_synonym gen = "nat \<Rightarrow> real"

definition advance :: "gen \<Rightarrow> nat \<Rightarrow> gen" where
  "advance g k = (\<lambda>n. g (n + k))"

text \<open>\<open>normal(size=(a, b, c))\<close>.\<close>

definition normal_size3 :: "gen \<Rightarrow> nat \<Rightarrow> nat \<Rightarrow> nat \<Rightarrow> mat list \<times> gen" where
  "normal_size3 g a b c =
     (map (\<lambda>k. mat_of b c (\<lambda>i j. g (k * b * c + i * c + j))) [0..<a], advance g (a * b * c))"

text \<open>\<open>normal(loc)\<close> with an array for \<open>loc\<close>: one variate for each element of \<open>loc\<close>.\<close>

definition normal_loc :: "gen \<Rightarrow> vec \<Rightarrow> vec \<times> gen" where
  "normal_loc g loc = (map (\<lambda>i. loc ! i + g i) [0..<length loc], advance g (length loc))"

text \<open>\<open>normal(scale=sd, size=(t, c))\<close>.\<close>

definition normal_scale :: "gen \<Rightarrow> real \<Rightarrow> nat \<Rightarrow> nat \<Rightarrow> error + (mat \<times> gen)" where
  "normal_scale g sd t c =
     (if sd < 0 then Inl (ValueError ''scale < 0'')
      else Inr (mat_of t c (\<lambda>i j. sd * g (i * c + j)), advance g (t * c)))"

text \<open>
  \<open>multivariate_normal(mean, cov, size=k)\<close>: numpy checks the shapes, factorises \<open>cov\<close>
  (the parameter \<open>factor\<close> stands for the factor it takes from the singular value
  decomposition) and returns \<open>mean + x \<cdot> factor cov\<close> for every row \<open>x\<close> of \<open>k\<close> rows of
  standard normal variates.
\<close>

definition multivariate_normal ::
  "(mat \<Rightarrow> mat) \<Rightarrow> gen \<Rightarrow> vec \<Rightarrow> mat \<Rightarrow> nat \<Rightarrow> error + (mat \<times> gen)" where
  "multivariate_normal factor g mean cov k =
     (let n = length cov
      in if \<not> list_all (\<lambda>r. length r = n) cov
         then Inl (ValueError ''cov must be 2 dimensional and square'')
         else if length mean = n
         then Inr (mat_of k n (\<lambda>r j. mean ! j + (\<Sum>i<n. g (r * n + i) * factor cov ! i ! j)),
                   advance g (k * n))
         else Inl (ValueError ''mean and cov must have same length''))"

section \<open>The \<open>Simulation\<close> base class (vrad/simulation/_base.py)\<close>

text \<open>
  An attribute that \<open>__init__\<close> assigns late is a slot: not yet in the instance
  dictionary, bound to \<open>None\<close>, or bound to a value. The six parameters stored first
  are always present.
\<close>

datatype 'a slot = Unset | PyNone | Val 'a

record simulation =
  n_samples :: int
  n_channels :: int
  n_states :: int
  sim_varying_means :: bool
  random_covariance_weights :: bool
  observation_error :: real
  state_time_course :: "mat slot"
  covariances :: "mat list slot"
  time_series :: "mat slot"
  rng :: "gen slot"
  means :: "vec slot"
  standard_deviations :: "vec slot"

text \<open>
  Values that an attribute access can give. \<open>VNdarrayAttr a name\<close> stands for the
  attribute \<open>name\<close> of the numpy array \<open>a\<close>, which is numpy's business.
\<close>

datatype pyval =
    VNone
  | VInt int
  | VBool bool
  | VFloat real
  | VVec vec
  | VArray mat
  | VArray3 "mat list"
  | VGen gen
  | VMethod string
  | VNdarrayAttr mat string

definition slot_val :: "('a \<Rightarrow> pyval) \<Rightarrow> 'a slot \<Rightarrow> pyval option" where
  "slot_val f x = (case x of Unset \<Rightarrow> None | PyNone \<Rightarrow> Some VNone | Val v \<Rightarrow> Some (f v))"

text \<open>
  What the ordinary lookup finds: the instance dictionary and the methods of the class
  (names inherited from \<open>object\<close> are left out).
\<close>

definition instance_dict :: "simulation \<Rightarrow> string \<Rightarrow> pyval option" where
  "instance_dict s attr =
     (if attr = ''n_samples'' then Some (VInt (n_samples s))
      else if attr = ''n_channels'' then Some (VInt (n_channels s))
      else if attr = ''n_states'' then Some (VInt (n_states s))
      else if attr = ''sim_varying_means'' then Some (VBool (sim_varying_means s))
      else if attr = ''random_covariance_weights''
        then Some (VBool (random_covariance_weights s))
      else if attr = ''observation_error'' then Some (VFloat (observation_error s))
      else if attr = ''state_time_course'' then slot_val VArray (state_time_course s)
      else if attr = ''covariances'' then slot_val VArray3 (covariances s)
      else if attr = ''time_series'' then slot_val VArray (time_series s)
      else if attr = ''_rng'' then slot_val VGen (rng s)
      else if attr = ''means'' then slot_val VVec (means s)
      else if attr = ''standard_deviations'' then slot_val VVec (standard_deviations s)
      else if attr \<in> set [''simulate'', ''__array__'', ''__iter__'', ''__getattr__'',
                         ''__len__'', ''__init__'', ''generate_states'', ''plot_alphas'',
                         ''create_covariances'', ''simulate_data'', ''standardize'',
                         ''plot_data'']
        then Some (VMethod attr)
      else None)"

text \<open>
  \<open>__getattr__\<close>, which Python calls when the ordinary lookup finds nothing. Its last
  line reads \<open>self.time_series\<close>, again by the ordinary lookup, and again through
  \<open>__getattr__\<close> when that finds nothing: this inner call takes the first branch.
  \<open>None\<close> has no attribute whose name does not start with two underscores.
\<close>

definition Simulation_getattr :: "simulation \<Rightarrow> string \<Rightarrow> error + pyval" where
  "Simulation_getattr s attr =
     (if attr = ''time_series'' then Inl (NameError ''time_series has not yet been created.'')
      else if take 2 attr = ''__'' then Inl (AttributeError (''No attribute called '' @ attr @ ''.''))
      else (case instance_dict s ''time_series'' of
              None \<Rightarrow> Inl (NameError ''time_series has not yet been created.'')
            | Some (VArray a) \<Rightarrow> Inr (VNdarrayAttr a attr)
            | Some _ \<Rightarrow> Inl (AttributeError attr)))"

text \<open>The expression \<open>self.attr\<close>.\<close>

definition getattribute :: "simulation \<Rightarrow> string \<Rightarrow> error + pyval" where
  "getattribute s attr =
     (case instance_dict s attr of
        Some v \<Rightarrow> Inr v
      | None \<Rightarrow> Simulation_getattr s attr)"

text \<open>\<open>self._rng\<close> where a method of the generator is called on it.\<close>

definition lookup_rng :: "simulation \<Rightarrow> error + gen" where
  "lookup_rng s =
     (case getattribute s ''_rng'' of
        Inl e \<Rightarrow> Inl e
      | Inr (VGen g) \<Rightarrow> Inr g
      | Inr _ \<Rightarrow> Inl (AttributeError ''normal''))"

subsection \<open>\<open>create_covariances\<close>\<close>

text \<open>
  \<open>np.fill_diagonal\<close> on the view \<open>a[:n, :n, :n]\<close> of an array \<open>a\<close> of shape
  \<open>(d0, d1, d2)\<close>: for an array of more than two dimensions numpy requires all
  dimensions of the view to be equal, and then writes the entries \<open>(k, k, k)\<close>.
\<close>

definition fill_diagonal_view ::
  "nat \<Rightarrow> nat \<Rightarrow> nat \<Rightarrow> nat \<Rightarrow> mat list \<Rightarrow> real \<Rightarrow> error + mat list" where
  "fill_diagonal_view d0 d1 d2 n a val =
     (if min n d0 = min n d1 \<and> min n d1 = min n d2
      then Inr (map (\<lambda>k. mat_of d1 d2
                  (\<lambda>i j. if k < min n d0 \<and> i = k \<and> j = k then val else a ! k ! i ! j))
                [0..<d0])
      else Inl (ValueError ''All dimensions of input must be of equal length''))"

text \<open>The weight matrices: the \<open>if\<close> at the head of \<open>create_covariances\<close>.\<close>

definition tilde_cov_weights :: "simulation \<Rightarrow> error + (mat list \<times> simulation)" where
  "tilde_cov_weights s =
     (if random_covariance_weights s
      then (case lookup_rng s of
              Inl e \<Rightarrow> Inl e
            | Inr g \<Rightarrow>
                if n_states s < 0 \<or> n_channels s < 0
                then Inl (ValueError ''negative dimensions are not allowed'')
                else (let (w, g') = normal_size3 g (nat (n_states s)) (nat (n_channels s))
                                      (nat (n_channels s))
                      in Inr (w, s\<lparr>rng := Val g'\<rparr>)))
      else if n_states s < 0 \<or> n_channels s < 0
        then Inl (ValueError ''negative dimensions are not allowed'')
        else (case fill_diagonal_view (nat (n_states s)) (nat (n_channels s))
                     (nat (n_channels s)) (nat (n_states s))
                     (replicate (nat (n_states s))
                        (zeros2 (nat (n_channels s)) (nat (n_channels s)))) 1 of
                Inl e \<Rightarrow> Inl e
              | Inr w \<Rightarrow> Inr (w, s)))"

text \<open>
  The matrix \<open>W \<cdot> W\<^sup>T + identity_factor \<cdot> I\<close> of one weight matrix, before it is
  divided by its trace.
\<close>

definition covariance_of_weights :: "nat \<Rightarrow> real \<Rightarrow> mat \<Rightarrow> mat" where
  "covariance_of_weights n identity_factor w =
     mat_add n (matmul n w (transpose_mat n w)) (mat_scale n (eye n) identity_factor)"

definition create_covariances :: "simulation \<Rightarrow> real \<Rightarrow> error + (mat list \<times> simulation)" where
  "create_covariances s identity_factor =
     (case tilde_cov_weights s of
        Inl e \<Rightarrow> Inl e
      | Inr (w, s') \<Rightarrow>
          (let n = nat (n_channels s);
               covariances_sim = map (covariance_of_weights n identity_factor) w;
               normalisation = map (trace n) covariances_sim
           in if n \<noteq> 0 \<and> 0 \<in> set normalisation then Inl NotFinite
              else Inr (map (\<lambda>c. mat_div n c (trace n c)) covariances_sim, s')))"

subsection \<open>\<open>simulate_data\<close>\<close>

text \<open>
  \<open>mus_sim\<close> is two-dimensional in the branch of zeros and one-dimensional in the other
  branch, where the pair \<open>(n_states, n_channels)\<close> is the first argument of \<open>normal\<close>,
  that is, its \<open>loc\<close>.
\<close>

datatype mus = Rank1 vec | Rank2 nat nat mat

definition mus_sim :: "simulation \<Rightarrow> error + (mus \<times> simulation)" where
  "mus_sim s =
     (if sim_varying_means s
      then (case lookup_rng s of
              Inl e \<Rightarrow> Inl e
            | Inr g \<Rightarrow>
                (let (v, g') = normal_loc g [real_of_int (n_states s), real_of_int (n_channels s)]
                 in Inr (Rank1 v, s\<lparr>rng := Val g'\<rparr>)))
      else if n_states s < 0 \<or> n_channels s < 0
        then Inl (ValueError ''negative dimensions are not allowed'')
        else Inr (Rank2 (nat (n_states s)) (nat (n_channels s))
                    (zeros2 (nat (n_states s)) (nat (n_channels s))), s))"

text \<open>\<open>np.sum(mus_sim * alpha[:, np.newaxis], axis=0)\<close>.\<close>

definition weighted_mean :: "mus \<Rightarrow> vec \<Rightarrow> error + vec" where
  "weighted_mean m alpha =
     (case m of
        Rank1 v \<Rightarrow> Inr (map (\<lambda>i. \<Sum>j<length alpha. v ! i * alpha ! j) [0..<length v])
      | Rank2 a c M \<Rightarrow>
          if bcast_ok a (length alpha)
          then Inr (map (\<lambda>i. \<Sum>j<bdim a (length alpha).
                                 M ! bidx a j ! i * alpha ! bidx (length alpha) j) [0..<c])
          else Inl (ValueError ''operands could not be broadcast together''))"

text \<open>
  \<open>np.sum(self.covariances * alpha[:, np.newaxis, np.newaxis], axis=0)\<close>. An empty
  array of covariances is taken to have the shape \<open>(0, n_channels, n_channels)\<close> that
  \<open>create_covariances\<close> gives it.
\<close>

definition weighted_covariance :: "nat \<Rightarrow> mat list \<Rightarrow> vec \<Rightarrow> error + mat" where
  "weighted_covariance n_ch covs alpha =
     (let a = length covs;
          r = (case covs of [] \<Rightarrow> n_ch | K # _ \<Rightarrow> length K);
          c = (case covs of [] \<Rightarrow> n_ch | K # _ \<Rightarrow> (case K of [] \<Rightarrow> 0 | row # _ \<Rightarrow> length row))
      in if bcast_ok a (length alpha)
         then Inr (mat_of r c (\<lambda>i j. \<Sum>k<bdim a (length alpha).
                                 covs ! bidx a k ! i ! j * alpha ! bidx (length alpha) k))
         else Inl (ValueError ''operands could not be broadcast together''))"

text \<open>\<open>np.unique(stc, axis=0)\<close>: the distinct rows, in lexicographic order.\<close>

fun row_less :: "vec \<Rightarrow> vec \<Rightarrow> bool" where
  "row_less [] [] = False"
| "row_less [] (y # ys) = True"
| "row_less (x # xs) [] = False"
| "row_less (x # xs) (y # ys) = (x < y \<or> (x = y \<and> row_less xs ys))"

fun insert_row :: "vec \<Rightarrow> mat \<Rightarrow> mat" where
  "insert_row r [] = [r]"
| "insert_row r (q # qs) =
     (if r = q then q # qs
      else if row_less r q then r # q # qs
      else q # insert_row r qs)"

definition unique_rows :: "mat \<Rightarrow> mat" where
  "unique_rows stc = foldr insert_row stc []"

text \<open>
  \<open>data_sim[mask] = samples\<close>: the rows of \<open>samples\<close> go, in order, to the rows of
  \<open>data_sim\<close> that the mask selects; a sample of one column is repeated along the row.
\<close>

fun assign_rows :: "nat \<Rightarrow> mat \<Rightarrow> bool list \<Rightarrow> mat \<Rightarrow> mat" where
  "assign_rows c (row # rows) (b # bs) samples =
     (if b then map (\<lambda>j. hd samples ! bidx (length (hd samples)) j) [0..<c]
                 # assign_rows c rows bs (tl samples)
      else row # assign_rows c rows bs samples)"
| "assign_rows c rows bs samples = rows"

definition assign_masked :: "nat \<Rightarrow> mat \<Rightarrow> bool list \<Rightarrow> mat \<Rightarrow> error + mat" where
  "assign_masked c data_sim bs samples =
     (if length bs = length data_sim
      then if list_all (\<lambda>r. length r = c \<or> length r = 1) samples
           then Inr (assign_rows c data_sim bs samples)
           else Inl (ValueError ''shape mismatch: value array could not be broadcast'')
      else Inl (IndexError ''boolean index did not match indexed array''))"

text \<open>
  The loop over the unique rows of the state time course. Each round computes the
  mean, reads \<open>self.covariances\<close> for the covariance, draws the samples and then
  assigns them.
\<close>

fun sample_loop ::
  "(mat \<Rightarrow> mat) \<Rightarrow> mus \<Rightarrow> mat \<Rightarrow> mat \<Rightarrow> mat \<times> simulation \<Rightarrow>
   error + (mat \<times> simulation)" where
  "sample_loop factor m stc [] (data_sim, s) = Inr (data_sim, s)"
| "sample_loop factor m stc (alpha # rest) (data_sim, s) =
     (case weighted_mean m alpha of
        Inl e \<Rightarrow> Inl e
      | Inr mu \<Rightarrow>
     (case getattribute s ''covariances'' of
        Inl e \<Rightarrow> Inl e
      | Inr (VArray3 covs) \<Rightarrow>
     (case weighted_covariance (nat (n_channels s)) covs alpha of
        Inl e \<Rightarrow> Inl e
      | Inr sigma \<Rightarrow>
     (case lookup_rng s of
        Inl e \<Rightarrow> Inl e
      | Inr g \<Rightarrow>
     (case multivariate_normal factor g mu sigma
             (length (filter (\<lambda>row. row = alpha) stc)) of
        Inl e \<Rightarrow> Inl e
      | Inr (samples, g') \<Rightarrow>
     (case assign_masked (nat (n_channels s)) data_sim (map (\<lambda>row. row = alpha) stc) samples of
        Inl e \<Rightarrow> Inl e
      | Inr data_sim' \<Rightarrow>
          sample_loop factor m stc rest (data_sim', s\<lparr>rng := Val g'\<rparr>)))))
      | Inr _ \<Rightarrow> Inl (TypeError ''unsupported operand type(s) for *'')))"

text \<open>
  \<open>simulate_data\<close> returns the data and leaves the generator advanced. The final
  conversion to single precision is the identity on the reals of the model.
\<close>

definition simulate_data :: "(mat \<Rightarrow> mat) \<Rightarrow> simulation \<Rightarrow> error + (mat \<times> simulation)" where
  "simulate_data factor s =
     (case mus_sim s of
        Inl e \<Rightarrow> Inl e
      | Inr (m, s1) \<Rightarrow>
     (case getattribute s1 ''state_time_course'' of
        Inl e \<Rightarrow> Inl e
      | Inr stc0 \<Rightarrow>
          if n_samples s1 < 0 \<or> n_channels s1 < 0
          then Inl (ValueError ''negative dimensions are not allowed'')
          else
            (case stc0 of
               VArray stc \<Rightarrow>
                 (case sample_loop factor m stc (unique_rows stc)
                         (zeros2 (nat (n_samples s1)) (nat (n_channels s1)), s1) of
                    Inl e \<Rightarrow> Inl e
                  | Inr (data_sim, s2) \<Rightarrow>
                 (case lookup_rng s2 of
                    Inl e \<Rightarrow> Inl e
                  | Inr g \<Rightarrow>
                 (case normal_scale g (observation_error s2) (nat (n_samples s2))
                         (nat (n_channels s2)) of
                    Inl e \<Rightarrow> Inl e
                  | Inr (noise, g') \<Rightarrow>
                      Inr (map2 (map2 (+)) data_sim noise, s2\<lparr>rng := Val g'\<rparr>))))
             | _ \<Rightarrow> Inl (ValueError ''axis 0 is out of bounds for array of dimension 0''))))"

subsection \<open>\<open>simulate\<close> and \<open>__init__\<close>\<close>

text \<open>
  \<open>generate_states\<close> is abstract: it is the parameter of the same name, which may
  raise and may change the object (it uses the generator).
\<close>

definition simulate ::
  "(simulation \<Rightarrow> error + (mat \<times> simulation)) \<Rightarrow> (mat \<Rightarrow> mat) \<Rightarrow> simulation \<Rightarrow>
   error + simulation" where
  "simulate generate_states factor s =
     (case generate_states s of
        Inl e \<Rightarrow> Inl e
      | Inr (stc, s1) \<Rightarrow>
          (case simulate_data factor (s1\<lparr>state_time_course := Val stc\<rparr>) of
             Inl e \<Rightarrow> Inl e
           | Inr (ts, s2) \<Rightarrow> Inr (s2\<lparr>time_series := Val ts\<rparr>)))"

text \<open>
  \<open>__init__\<close>, assignment by assignment. \<open>np.random.default_rng\<close> is the parameter
  \<open>default_rng\<close> (it raises for a negative seed). An exception leaves no object.
\<close>

definition Simulation_init ::
  "(int option \<Rightarrow> error + gen) \<Rightarrow> (simulation \<Rightarrow> error + (mat \<times> simulation)) \<Rightarrow>
   (mat \<Rightarrow> mat) \<Rightarrow>
   int \<Rightarrow> int \<Rightarrow> int \<Rightarrow> bool \<Rightarrow> mat list option \<Rightarrow> real \<Rightarrow> bool \<Rightarrow> bool \<Rightarrow> int option \<Rightarrow>
   error + simulation" where
  "Simulation_init default_rng generate_states factor
     n_samples0 n_channels0 n_states0 sim_varying_means0 covariances0 observation_error0
     random_covariance_weights0 simulate0 random_seed =
     (let s0 = \<lparr>n_samples = n_samples0, n_channels = n_channels0, n_states = n_states0,
                sim_varying_means = sim_varying_means0,
                random_covariance_weights = random_covariance_weights0,
                observation_error = observation_error0,
                state_time_course = PyNone, covariances = Unset, time_series = Unset,
                rng = Unset, means = Unset, standard_deviations = Unset\<rparr>
      in case (case covariances0 of
                 None \<Rightarrow> create_covariances s0 (1 / 10000)
               | Some c \<Rightarrow> Inr (c, s0)) of
           Inl e \<Rightarrow> Inl e
         | Inr (c, s1) \<Rightarrow>
             (let s2 = s1\<lparr>covariances := Val c\<rparr>;
                  s3 = s2\<lparr>time_series := PyNone\<rparr>
              in case default_rng random_seed of
                   Inl e \<Rightarrow> Inl e
                 | Inr g \<Rightarrow>
                     (let s4 = s3\<lparr>rng := Val g\<rparr>
                      in if simulate0 then simulate generate_states factor s4 else Inr s4)))"

subsection \<open>\<open>standardize\<close>\<close>

text \<open>\<open>np.mean(x, axis=0)\<close> and \<open>np.std(x, axis=0)\<close>, for one channel.\<close>

definition col_mean :: "mat \<Rightarrow> nat \<Rightarrow> real" where
  "col_mean ts c = (\<Sum>t<length ts. ts ! t ! c) / real (length ts)"

definition col_std :: "mat \<Rightarrow> nat \<Rightarrow> real" where
  "col_std ts c = sqrt ((\<Sum>t<length ts. (ts ! t ! c - col_mean ts c)\<^sup>2) / real (length ts))"

text \<open>
  The division of the covariances by the outer product of the standard deviations, in
  place: the outer product has shape \<open>(1, c, c)\<close> and must broadcast to the shape of
  the covariances.
\<close>

definition divide_by_outer :: "nat \<Rightarrow> vec \<Rightarrow> mat list \<Rightarrow> error + mat list" where
  "divide_by_outer c sd covs =
     (if c = 1 \<or> list_all (is_square c) covs
      then Inr (map (\<lambda>K. map (\<lambda>i. map (\<lambda>j. K ! i ! j / (sd ! bidx c i * sd ! bidx c j))
                                    [0..<length (K ! i)]) [0..<length K]) covs)
      else Inl (ValueError ''operands could not be broadcast together''))"

text \<open>
  \<open>standardize\<close>. A series without rows, or a channel whose standard deviation is
  zero, gives nan (zero divided by zero): the outcome \<open>NotFinite\<close>. An exception is
  returned without the object.
\<close>

definition standardize :: "simulation \<Rightarrow> error + simulation" where
  "standardize s =
     (case getattribute s ''time_series'' of
        Inl e \<Rightarrow> Inl e
      | Inr (VArray ts) \<Rightarrow>
          (if ts = [] then Inl NotFinite
           else
             (let c = length (hd ts);
                  mu = map (col_mean ts) [0..<c];
                  sd = map (col_std ts) [0..<c];
                  s1 = s\<lparr>means := Val mu\<rparr>;
                  s2 = s1\<lparr>standard_deviations := Val sd\<rparr>
              in if 0 \<in> set sd then Inl NotFinite
                 else
                   (let ts1 = map (\<lambda>row. map (\<lambda>j. row ! j - mu ! j) [0..<c]) ts;
                        ts2 = map (\<lambda>row. map (\<lambda>j. row ! j / sd ! j) [0..<c]) ts1;
                        s3 = s2\<lparr>time_series := Val ts2\<rparr>
                    in case getattribute s3 ''covariances'' of
                         Inl e \<Rightarrow> Inl e
                       | Inr (VArray3 covs) \<Rightarrow>
                           (case divide_by_outer c sd covs of
                              Inl e \<Rightarrow> Inl e
                            | Inr covs' \<Rightarrow> Inr (s3\<lparr>covariances := Val covs'\<rparr>))
                       | Inr _ \<Rightarrow> Inl (TypeError ''unsupported operand type(s) for /=''))))
      | Inr _ \<Rightarrow> Inl (TypeError ''unsupported operand type(s) for /''))"

text \<open>
  What the specification says \<open>standardize\<close> computes: the z-transform of the series,
  and the covariances divided by the outer product of the standard deviations.
\<close>

definition z_transform :: "nat \<Rightarrow> mat \<Rightarrow> mat" where
  "z_transform c ts =
     map (\<lambda>row. map (\<lambda>j. (row ! j - col_mean ts j) / col_std ts j) [0..<c]) ts"

definition to_correlations :: "nat \<Rightarrow> mat \<Rightarrow> mat list \<Rightarrow> mat list" where
  "to_correlations c ts covs =
     map (\<lambda>K. mat_of c c (\<lambda>i j. K ! i ! j / (col_std ts i * col_std ts j))) covs"

section \<open>M-DyNeMo observation model: the model structure\<close>

text \<open>
  Modelled from the spec: \<open>MixVectorsLayer\<close> of \<open>ohba_models.inference.layers\<close>, which
  is not part of the sources at hand. "For every timestep t,
  \<open>mixed[t] = \<Sum>\<^sub>j coefficients[t, j] * vectors[j]\<close>", with coefficients of shape
  \<open>(T, n_modes)\<close>, vectors of shape \<open>(n_modes, C)\<close> and a result of shape \<open>(T, C)\<close>.
\<close>

definition mix_vectors :: "nat \<Rightarrow> mat \<Rightarrow> mat \<Rightarrow> mat" where
  "mix_vectors c coefficients vectors =
     map (\<lambda>a. map (\<lambda>i. \<Sum>j<length vectors. a ! j * vectors ! j ! i) [0..<c]) coefficients"

text \<open>
  Modelled from the spec: \<open>MixMatricesLayer\<close> of \<open>ohba_models.inference.layers\<close>, which
  is not part of the sources at hand. "Identical weighted sum but over
  \<open>(n_modes, C, C)\<close> matrices, output \<open>(T, C, C)\<close>."
\<close>

definition mix_matrices :: "nat \<Rightarrow> mat \<Rightarrow> mat list \<Rightarrow> mat list" where
  "mix_matrices c coefficients matrices =
     map (\<lambda>a. mat_of c c (\<lambda>p q. \<Sum>j<length matrices. a ! j * matrices ! j ! p ! q))
       coefficients"

text \<open>
  Modelled from the spec: \<open>MatMulLayer\<close> of \<open>ohba_models.inference.layers\<close>, which is
  not part of the sources at hand, as the model structure applies it to \<open>[G, F, G]\<close>.
  "\<open>combine(G, F)\<close> computes the congruence transform
  \<open>C[t] = G[t] \<cdot> F[t] \<cdot> G[t]\<^sup>T\<close> per timestep."
\<close>

definition combine :: "nat \<Rightarrow> mat list \<Rightarrow> mat list \<Rightarrow> mat list" where
  "combine c G F = map2 (\<lambda>g f. matmul c (matmul c g f) (transpose_mat c g)) G F"

text \<open>
  The data flow of \<open>_model_structure\<close> for one sequence. The three parameter layers
  give the mode means \<open>mu\<close>, the diagonal matrices of standard deviations \<open>E\<close> and the
  correlation matrices \<open>D\<close>; the loss layer, which is not part of the sources at hand
  either, is the parameter \<open>ll_loss_layer\<close>.
\<close>

definition model_structure ::
  "nat \<Rightarrow> (mat \<Rightarrow> mat \<Rightarrow> mat list \<Rightarrow> 'l) \<Rightarrow> mat \<Rightarrow> mat list \<Rightarrow> mat list \<Rightarrow>
   mat \<Rightarrow> mat \<Rightarrow> mat \<Rightarrow> 'l" where
  "model_structure c ll_loss_layer mu E D data alpha gamma =
     (let m = mix_vectors c alpha mu;
          G = mix_matrices c alpha E;
          F = mix_matrices c gamma D;
          C = combine c G F
      in ll_loss_layer data m C)"

section \<open>Theorems: \<open>Config\<close>\<close>

text \<open>
  Claim C8. Constructing a \<open>Config\<close> in which \<open>learn_means\<close>, \<open>learn_stds\<close> or
  \<open>learn_fcs\<close> is left \<open>None\<close> raises the ValueError of
  \<open>validate_observation_model_parameters\<close>, whatever the other two validators do, so no
  configuration object exists from which a model could be built; when all three are
  given, that validator returns normally and the construction is decided by the
  remaining two validators alone.
\<close>

theorem config_requires_learn_flags:
  "(learn_means c = None \<or> learn_stds c = None \<or> learn_fcs c = None \<longrightarrow>
      Config_new vd vt c =
        Inl (ValueError ''learn_means, learn_stds and learn_fcs must be passed.''))
   \<and> (learn_means c \<noteq> None \<and> learn_stds c \<noteq> None \<and> learn_fcs c \<noteq> None \<longrightarrow>
      validate_observation_model_parameters c = Inr ()
      \<and> Config_new vd vt c =
          (case vd c of
             Inl e \<Rightarrow> Inl e
           | Inr _ \<Rightarrow> (case vt c of Inl e \<Rightarrow> Inl e | Inr _ \<Rightarrow> Inr c)))"
  by (auto simp: Config_new_def post_init_def validate_observation_model_parameters_def
           split: sum.splits)

theorem config_requires_learn_flags_witness:
  "Config_new (\<lambda>_. Inr ()) (\<lambda>_. Inr ())
     \<lparr>multiple_dynamics = True, learn_means = Some True, learn_stds = None,
      learn_fcs = Some False, initial_means = None, initial_stds = None,
      initial_fcs = None\<rparr>
   = Inl (ValueError ''learn_means, learn_stds and learn_fcs must be passed.'')
   \<and> Config_new (\<lambda>_. Inr ()) (\<lambda>_. Inr ())
     \<lparr>multiple_dynamics = True, learn_means = Some True, learn_stds = Some True,
      learn_fcs = Some False, initial_means = None, initial_stds = None,
      initial_fcs = None\<rparr>
   = Inr \<lparr>multiple_dynamics = True, learn_means = Some True, learn_stds = Some True,
      learn_fcs = Some False, initial_means = None, initial_stds = None,
      initial_fcs = None\<rparr>"
  using config_requires_learn_flags
    [of "\<lparr>multiple_dynamics = True, learn_means = Some True, learn_stds = None,
      learn_fcs = Some False, initial_means = None, initial_stds = None,
      initial_fcs = None\<rparr>" "\<lambda>_. Inr ()" "\<lambda>_. Inr ()"]
    config_requires_learn_flags
    [of "\<lparr>multiple_dynamics = True, learn_means = Some True, learn_stds = Some True,
      learn_fcs = Some False, initial_means = None, initial_stds = None,
      initial_fcs = None\<rparr>" "\<lambda>_. Inr ()" "\<lambda>_. Inr ()"]
  by simp

section \<open>Theorems: \<open>Data\<close>\<close>

text \<open>
  Claim C9. \<open>check\<close> raises its ValueError for every numpy array, of any rank (the
  test "rank differs from 2 or rank differs from 3" holds for every rank), so neither
  the constructor of \<open>Data\<close> nor \<open>add\<close> accepts a numpy array: the constructor raises,
  and \<open>add\<close> raises leaving the object as it was.
\<close>

theorem check_rejects_every_array:
  "check (NdArray a) =
     Inl (ValueError ''A 2D (single subject) or 3D (multiple subject) array must be passed.'')
   \<and> Data_init Subject (NdArray a) sf =
     Inl (ValueError ''A 2D (single subject) or 3D (multiple subject) array must be passed.'')
   \<and> add Subject d (NdArray a) sf =
     (d, Some (ValueError
        ''A 2D (single subject) or 3D (multiple subject) array must be passed.''))"
proof -
  have rank: "ndim a \<noteq> 2 \<or> ndim a \<noteq> 3"
    by arith
  have c: "check (NdArray a) =
     Inl (ValueError ''A 2D (single subject) or 3D (multiple subject) array must be passed.'')"
    unfolding check_def using rank by (simp del: not_None_eq)
  show ?thesis
    unfolding Data_init_def add_def by (simp add: c)
qed

theorem check_rejects_every_array_witness:
  "check (NdArray (Nd [2, 3] [1, 2, 3, 4, 5, 6])) =
     Inl (ValueError ''A 2D (single subject) or 3D (multiple subject) array must be passed.'')
   \<and> check (NdArray (Nd [1, 2, 1] [7, 8])) =
     Inl (ValueError ''A 2D (single subject) or 3D (multiple subject) array must be passed.'')"
  using check_rejects_every_array [of "Nd [2, 3] [1, 2, 3, 4, 5, 6]", THEN conjunct1]
    check_rejects_every_array [of "Nd [1, 2, 1] [7, 8]", THEN conjunct1]
  by simp

text \<open>
  Claim C10, as amended. On an object whose \<open>prepared\<close> flag is set, \<open>prepare\<close> called
  with an integer, a list of integers or the string "all" logs one warning and returns
  the object unchanged (subjects, count and flag), without raising. On an object not yet
  prepared, with such \<open>ids\<close>, the subjects are replaced by what
  \<open>manipulation.prepare\<close> returns and the flag is set, provided that call returns.
\<close>

theorem prepare_twice_is_noop:
  "ids = IdsInt i \<or> ids = IdsList l \<or> ids = IdsStr ''all'' \<Longrightarrow>
   (prepared d \<longrightarrow>
      prepare P d ids ne np w rs =
        Inr (d, [''Data has already been prepared. No changes made.'']))
   \<and> (\<not> prepared d \<longrightarrow>
        (\<forall>ss. P (subjects d)
                 (case ids of IdsInt i \<Rightarrow> [i] | IdsList l \<Rightarrow> l
                  | IdsStr _ \<Rightarrow> map int [1..<n_subjects d + 1]) ne np w rs = Inr ss \<longrightarrow>
           prepare P d ids ne np w rs = Inr (d\<lparr>subjects := ss, prepared := True\<rparr>, [])))"
  by (auto simp: prepare_def)

theorem prepare_twice_is_noop_witness:
  "prepare (\<lambda>ss ids ne np w rs. Inr (rev ss))
     \<lparr>n_subjects = 2, subjects = [''a'', ''b''], prepared = True\<rparr>
     (IdsStr ''all'') None None False None
   = Inr (\<lparr>n_subjects = 2, subjects = [''a'', ''b''], prepared = True\<rparr>,
          [''Data has already been prepared. No changes made.''])
   \<and> prepare (\<lambda>ss ids ne np w rs. Inr (rev ss))
     \<lparr>n_subjects = 2, subjects = [''a'', ''b''], prepared = False\<rparr>
     (IdsInt 1) None None False None
   = Inr (\<lparr>n_subjects = 2, subjects = [''b'', ''a''], prepared = True\<rparr>, [])"
  using prepare_twice_is_noop
    [of "IdsStr ''all''" 0 "[]" "\<lparr>n_subjects = 2, subjects = [''a'', ''b''], prepared = True\<rparr>"
        "\<lambda>ss ids ne np w rs. Inr (rev ss)" None None False None]
    prepare_twice_is_noop
    [of "IdsInt 1" 1 "[]" "\<lparr>n_subjects = 2, subjects = [''a'', ''b''], prepared = False\<rparr>"
        "\<lambda>ss ids ne np w rs. Inr (rev ss)" None None False None]
  by simp

text \<open>
  The claim as first stated (no error on any call on a prepared object) fails: the
  check of a string \<open>ids\<close> comes before the test of the flag.
\<close>

theorem prepare_twice_counterexample:
  "prepare (\<lambda>ss ids ne np w rs. Inr ss)
     \<lparr>n_subjects = 1, subjects = [''a''], prepared = True\<rparr>
     (IdsStr ''first'') None None False None
   = Inl (ValueError ''ids=first unknown in data preparation.'')"
  by (simp add: prepare_def)

section \<open>Theorems: covariances of the simulation\<close>

lemma length_mat_of [simp]: "length (mat_of n m f) = n"
  by (simp add: mat_of_def)

lemma nth_mat_of [simp]: "i < n \<Longrightarrow> mat_of n m f ! i = map (f i) [0..<m]"
  by (simp add: mat_of_def)

lemma row_length_mat_of: "r \<in> set (mat_of n m f) \<Longrightarrow> length r = m"
  by (auto simp: mat_of_def)

lemma is_square_mat_of [simp]: "is_square n (mat_of n n f)"
  by (auto simp: is_square_def row_length_mat_of)

lemma gram_quadratic:
  fixes x :: "nat \<Rightarrow> real" and w :: "nat \<Rightarrow> nat \<Rightarrow> real"
  shows "(\<Sum>i<n. \<Sum>j<n. x i * (\<Sum>k<n. w i k * w j k) * x j) = (\<Sum>k<n. (\<Sum>i<n. x i * w i k)\<^sup>2)"
proof -
  have "(\<Sum>k<n. (\<Sum>i<n. x i * w i k)\<^sup>2) = (\<Sum>k<n. \<Sum>i<n. \<Sum>j<n. (x i * w i k) * (x j * w j k))"
    by (simp add: power2_eq_square sum_product)
  also have "\<dots> = (\<Sum>i<n. \<Sum>k<n. \<Sum>j<n. (x i * w i k) * (x j * w j k))"
    by (rule sum.swap)
  also have "\<dots> = (\<Sum>i<n. \<Sum>j<n. \<Sum>k<n. (x i * w i k) * (x j * w j k))"
    by (rule sum.cong[OF refl]) (rule sum.swap)
  also have "\<dots> = (\<Sum>i<n. \<Sum>j<n. x i * (\<Sum>k<n. w i k * w j k) * x j)"
    by (simp add: sum_distrib_left sum_distrib_right mult_ac)
  finally show ?thesis by simp
qed

lemma identity_quadratic:
  fixes x :: "nat \<Rightarrow> real"
  shows "(\<Sum>i<n. \<Sum>j<n. x i * ((if i = j then 1 else 0) * e) * x j) = e * (\<Sum>i<n. (x i)\<^sup>2)"
proof -
  have "(\<Sum>j<n. x i * ((if i = j then 1 else 0) * e) * x j) = e * (x i)\<^sup>2" if "i < n" for i
  proof -
    have "(\<Sum>j<n. x i * ((if i = j then 1 else 0) * e) * x j) = (\<Sum>j<n. if j = i then x i * e * x i else 0)"
      by (rule sum.cong) auto
    also have "\<dots> = x i * e * x i"
      using that by (simp add: sum.delta)
    finally show ?thesis by (simp add: power2_eq_square mult_ac)
  qed
  then show ?thesis by (simp add: sum_distrib_left)
qed

lemma covariance_of_weights_nth:
  assumes "i < n" "j < n"
  shows "covariance_of_weights n e w ! i ! j = (\<Sum>k<n. w ! i ! k * w ! j ! k) + (if i = j then 1 else 0) * e"
  using assms by (simp add: covariance_of_weights_def mat_add_def matmul_def transpose_mat_def mat_scale_def eye_def)

lemma covariance_of_weights_quad:
  "quad_form n (covariance_of_weights n e w) x =
     (\<Sum>k<n. (\<Sum>i<n. x ! i * w ! i ! k)\<^sup>2) + e * (\<Sum>i<n. (x ! i)\<^sup>2)"
proof -
  have "quad_form n (covariance_of_weights n e w) x =
    (\<Sum>i<n. \<Sum>j<n. x ! i * (\<Sum>k<n. w ! i ! k * w ! j ! k) * x ! j + x ! i * ((if i = j then 1 else 0) * e) * x ! j)"
    unfolding quad_form_def
    by (intro sum.cong refl) (simp add: covariance_of_weights_nth algebra_simps)
  also have "\<dots> = (\<Sum>i<n. \<Sum>j<n. x ! i * (\<Sum>k<n. w ! i ! k * w ! j ! k) * x ! j)
       + (\<Sum>i<n. \<Sum>j<n. x ! i * ((if i = j then 1 else 0) * e) * x ! j)"
    by (simp add: sum.distrib)
  finally show ?thesis
    by (simp only: gram_quadratic identity_quadratic)
qed

lemma covariance_of_weights_trace:
  "trace n (covariance_of_weights n e w) = (\<Sum>i<n. \<Sum>k<n. (w ! i ! k)\<^sup>2) + real n * e"
  unfolding trace_def by (simp add: covariance_of_weights_nth sum.distrib power2_eq_square)

lemma covariance_of_weights_trace_pos:
  assumes "0 < e" "0 < n"
  shows "0 < trace n (covariance_of_weights n e w)"
proof -
  have "0 \<le> (\<Sum>i<n. \<Sum>k<n. (w ! i ! k)\<^sup>2)"
    by (intro sum_nonneg) simp
  moreover have "0 < real n * e" using assms by simp
  ultimately show ?thesis by (simp add: covariance_of_weights_trace)
qed

lemma mat_div_nth: "i < n \<Longrightarrow> j < n \<Longrightarrow> mat_div n A c ! i ! j = A ! i ! j / c"
  by (simp add: mat_div_def)

lemma mat_div_quad: "quad_form n (mat_div n A c) x = quad_form n A x / c"
  unfolding quad_form_def
  by (simp add: mat_div_nth sum_divide_distrib)

lemma mat_div_trace: "trace n (mat_div n A c) = trace n A / c"
  unfolding trace_def by (simp add: mat_div_nth sum_divide_distrib)

lemma normalised_covariance:
  fixes w :: mat and e :: real and n :: nat
  assumes e: "0 < e" and n: "0 < n"
  defines "K \<equiv> mat_div n (covariance_of_weights n e w) (trace n (covariance_of_weights n e w))"
  shows "is_square n K" "symmetric n K" "positive_definite n K" "trace n K = 1"
proof -
  let ?c = "covariance_of_weights n e w"
  have t: "0 < trace n ?c" by (rule covariance_of_weights_trace_pos[OF e n])
  show "is_square n K" by (simp add: K_def mat_div_def)
  show "symmetric n K"
    unfolding symmetric_def K_def
    by (simp add: mat_div_nth covariance_of_weights_nth mult.commute)
  show "trace n K = 1" using t by (simp add: K_def mat_div_trace)
  show "positive_definite n K"
    unfolding positive_definite_def
  proof (intro allI impI)
    fix x :: vec
    assume "length x = n \<and> (\<exists>i<n. x ! i \<noteq> 0)"
    then obtain i where i: "i < n" "x ! i \<noteq> 0" by blast
    have "0 < (x ! i)\<^sup>2" using i by simp
    also have "(x ! i)\<^sup>2 \<le> (\<Sum>i<n. (x ! i)\<^sup>2)"
      using i(1) by (intro member_le_sum) auto
    finally have "0 < e * (\<Sum>i<n. (x ! i)\<^sup>2)" using e by simp
    moreover have "0 \<le> (\<Sum>k<n. (\<Sum>i<n. x ! i * w ! i ! k)\<^sup>2)"
      by (intro sum_nonneg) simp
    ultimately have "0 < quad_form n ?c x"
      by (simp add: covariance_of_weights_quad)
    then show "0 < quad_form n K x"
      using t by (simp add: K_def mat_div_quad)
  qed
qed

lemma lookup_rng_Val: "rng s = Val g \<Longrightarrow> lookup_rng s = Inr g"
  by (simp add: lookup_rng_def getattribute_def instance_dict_def slot_val_def)

lemma tilde_cov_weights_ok:
  assumes "0 \<le> n_channels s" "0 \<le> n_states s"
    and "if random_covariance_weights s then rng s = Val g else n_states s \<le> n_channels s"
  shows "\<exists>w. length w = nat (n_states s) \<and> tilde_cov_weights s =
     Inr (w, if random_covariance_weights s
             then s\<lparr>rng := Val (advance g (nat (n_states s) * nat (n_channels s) * nat (n_channels s)))\<rparr>
             else s)"
proof (cases "random_covariance_weights s")
  case True
  with assms have "rng s = Val g" by simp
  then show ?thesis
    using True assms(1,2)
    by (simp add: tilde_cov_weights_def lookup_rng_Val normal_size3_def)
next
  case False
  with assms have "nat (n_states s) \<le> nat (n_channels s)" by simp
  then show ?thesis
    using False assms(1,2)
    by (simp add: tilde_cov_weights_def fill_diagonal_view_def min_def)
qed

text \<open>
  Claim C2, as amended. For at least one channel, a number of states that is not
  negative and a positive \<open>identity_factor\<close>, \<open>create_covariances\<close> returns one matrix
  for each state, in the branch of random weights (with the generator in place) for
  every number of states, and in the structured branch when there are no more states
  than channels. Each returned matrix is \<open>W \<cdot> W\<^sup>T + identity_factor \<cdot> I\<close> divided by its
  trace, for the weight matrix \<open>W\<close> of its state, and is square, symmetric, positive
  definite and of trace one (over the reals).
\<close>

theorem create_covariances_unit_trace_pd:
  assumes "0 < identity_factor" and "0 < n_channels s" and "0 \<le> n_states s"
    and "if random_covariance_weights s then rng s = Val g else n_states s \<le> n_channels s"
  shows "\<exists>w s'. tilde_cov_weights s = Inr (w, s') \<and> length w = nat (n_states s)
     \<and> create_covariances s identity_factor =
         Inr (map (\<lambda>W. mat_div (nat (n_channels s))
                         (covariance_of_weights (nat (n_channels s)) identity_factor W)
                         (trace (nat (n_channels s))
                            (covariance_of_weights (nat (n_channels s)) identity_factor W))) w, s')
     \<and> (\<forall>W \<in> set w.
           is_square (nat (n_channels s))
             (mat_div (nat (n_channels s))
                (covariance_of_weights (nat (n_channels s)) identity_factor W)
                (trace (nat (n_channels s))
                   (covariance_of_weights (nat (n_channels s)) identity_factor W)))
         \<and> symmetric (nat (n_channels s))
             (mat_div (nat (n_channels s))
                (covariance_of_weights (nat (n_channels s)) identity_factor W)
                (trace (nat (n_channels s))
                   (covariance_of_weights (nat (n_channels s)) identity_factor W)))
         \<and> positive_definite (nat (n_channels s))
             (mat_div (nat (n_channels s))
                (covariance_of_weights (nat (n_channels s)) identity_factor W)
                (trace (nat (n_channels s))
                   (covariance_of_weights (nat (n_channels s)) identity_factor W)))
         \<and> trace (nat (n_channels s))
             (mat_div (nat (n_channels s))
                (covariance_of_weights (nat (n_channels s)) identity_factor W)
                (trace (nat (n_channels s))
                   (covariance_of_weights (nat (n_channels s)) identity_factor W))) = 1)"
proof -
  let ?n = "nat (n_channels s)"
  have n: "0 < ?n" using assms(2) by simp
  obtain w s' where w: "tilde_cov_weights s = Inr (w, s')" "length w = nat (n_states s)"
    using tilde_cov_weights_ok[of s g] assms by auto
  have nz: "trace ?n (covariance_of_weights ?n identity_factor W) \<noteq> 0" for W
    using covariance_of_weights_trace_pos[OF assms(1) n, of W] by simp
  have "0 \<notin> set (map (trace ?n) (map (covariance_of_weights ?n identity_factor) w))"
    using nz by (auto simp: image_iff)
  then have "create_covariances s identity_factor =
      Inr (map (\<lambda>W. mat_div ?n (covariance_of_weights ?n identity_factor W)
                       (trace ?n (covariance_of_weights ?n identity_factor W))) w, s')"
    using nz by (auto simp: create_covariances_def w(1) Let_def comp_def image_iff)
  with w normalised_covariance[OF assms(1) n] show ?thesis by blast
qed

theorem create_covariances_unit_trace_pd_witness:
  "create_covariances
     \<lparr>n_samples = 4, n_channels = 2, n_states = 1, sim_varying_means = False,
      random_covariance_weights = False, observation_error = 0,
      state_time_course = PyNone, covariances = Unset, time_series = Unset,
      rng = Unset, means = Unset, standard_deviations = Unset\<rparr> 1
   = Inr ([[[2 / 3, 0], [0, 1 / 3]]],
     \<lparr>n_samples = 4, n_channels = 2, n_states = 1, sim_varying_means = False,
      random_covariance_weights = False, observation_error = 0,
      state_time_course = PyNone, covariances = Unset, time_series = Unset,
      rng = Unset, means = Unset, standard_deviations = Unset\<rparr>)
   \<and> symmetric 2 [[2 / 3, 0], [0, 1 / 3]]
   \<and> positive_definite 2 [[2 / 3, 0], [0, 1 / 3]]
   \<and> trace 2 [[2 / 3, 0], [0, 1 / 3]] = 1"
proof -
  let ?s = "\<lparr>n_samples = 4, n_channels = 2, n_states = 1, sim_varying_means = False,
      random_covariance_weights = False, observation_error = 0,
      state_time_course = PyNone, covariances = Unset, time_series = Unset,
      rng = Unset, means = Unset, standard_deviations = Unset\<rparr>"
  let ?K = "\<lambda>W. mat_div 2 (covariance_of_weights 2 1 W) (trace 2 (covariance_of_weights 2 1 W))"
  have ev: "create_covariances ?s 1 = Inr ([[[2 / 3, 0], [0, 1 / 3]]], ?s)"
    by (simp add: create_covariances_def tilde_cov_weights_def fill_diagonal_view_def
        covariance_of_weights_def mat_add_def matmul_def transpose_mat_def mat_scale_def eye_def
        mat_div_def trace_def zeros2_def mat_of_def lessThan_Suc numeral_2_eq_2)
  obtain w s' where w: "create_covariances ?s 1 = Inr (map ?K w, s')"
    and p: "\<forall>W \<in> set w. is_square 2 (?K W) \<and> symmetric 2 (?K W)
              \<and> positive_definite 2 (?K W) \<and> trace 2 (?K W) = 1"
    using create_covariances_unit_trace_pd [of 1 ?s "\<lambda>n. 0"] by auto
  from ev w have "map ?K w = [[[2 / 3, 0], [0, 1 / 3]]]" by simp
  then obtain W where "W \<in> set w" "?K W = [[2 / 3, 0], [0, 1 / 3]]" by auto
  with p ev show ?thesis by metis
qed

text \<open>
  The claim as first stated (for every number of states and channels, in both
  branches) fails: with three states and two channels the structured branch raises in
  \<open>np.fill_diagonal\<close>.
\<close>

theorem create_covariances_counterexample:
  "create_covariances
     \<lparr>n_samples = 4, n_channels = 2, n_states = 3, sim_varying_means = False,
      random_covariance_weights = False, observation_error = 0,
      state_time_course = PyNone, covariances = Unset, time_series = Unset,
      rng = Unset, means = Unset, standard_deviations = Unset\<rparr> (1 / 10000)
   = Inl (ValueError ''All dimensions of input must be of equal length'')"
  by (simp add: create_covariances_def tilde_cov_weights_def fill_diagonal_view_def)

section \<open>Theorems: construction and sampling of the simulation\<close>

lemma list_all_length_mat_of [simp]: "list_all (\<lambda>r. length r = m) (mat_of n m f)"
  by (simp add: list_all_iff row_length_mat_of)

lemma create_covariances_ok:
  assumes "0 < e" and "0 \<le> n_channels s" and "0 \<le> n_states s"
    and "if random_covariance_weights s then rng s = Val g else n_states s \<le> n_channels s"
  shows "\<exists>c. create_covariances s e =
     Inr (c, if random_covariance_weights s
             then s\<lparr>rng := Val (advance g (nat (n_states s) * nat (n_channels s) * nat (n_channels s)))\<rparr>
             else s)"
proof -
  let ?n = "nat (n_channels s)"
  obtain w where w: "tilde_cov_weights s =
     Inr (w, if random_covariance_weights s
             then s\<lparr>rng := Val (advance g (nat (n_states s) * nat (n_channels s) * nat (n_channels s)))\<rparr>
             else s)"
    using tilde_cov_weights_ok[OF assms(2-4)] by blast
  have "trace ?n (covariance_of_weights ?n e W) \<noteq> 0" if "?n \<noteq> 0" for W
    using covariance_of_weights_trace_pos[OF assms(1), of ?n W] that by simp
  then show ?thesis
    by (auto simp: create_covariances_def w Let_def image_iff)
qed

text \<open>
  Claim C7, as amended. With \<open>covariances=None\<close> and \<open>random_covariance_weights=True\<close>
  the constructor always raises the NameError of \<open>__getattr__\<close>: \<open>create_covariances\<close>
  reads \<open>_rng\<close> before \<open>_rng\<close> and \<open>time_series\<close> are assigned. With
  \<open>random_covariance_weights=False\<close>, a number of states between zero and the number
  of channels, and a seed that \<open>default_rng\<close> accepts, the constructor completes its
  own assignments: with \<open>simulate=False\<close> it returns the object, with \<open>simulate=True\<close>
  the outcome is that of \<open>simulate\<close> on this object.
\<close>

theorem init_without_generator:
  "Simulation_init default_rng generate_states factor n_samples0 n_channels0 n_states0
     sim_varying_means0 None observation_error0 True simulate0 random_seed
   = Inl (NameError ''time_series has not yet been created.'')
   \<and> (0 \<le> n_states0 \<and> n_states0 \<le> n_channels0 \<and> default_rng random_seed = Inr g \<longrightarrow>
       (\<exists>c. Simulation_init default_rng generate_states factor n_samples0 n_channels0 n_states0
               sim_varying_means0 None observation_error0 False simulate0 random_seed
             = (if simulate0
                then simulate generate_states factor
                  \<lparr>n_samples = n_samples0, n_channels = n_channels0, n_states = n_states0,
                   sim_varying_means = sim_varying_means0, random_covariance_weights = False,
                   observation_error = observation_error0, state_time_course = PyNone,
                   covariances = Val c, time_series = PyNone, rng = Val g, means = Unset,
                   standard_deviations = Unset\<rparr>
                else Inr
                  \<lparr>n_samples = n_samples0, n_channels = n_channels0, n_states = n_states0,
                   sim_varying_means = sim_varying_means0, random_covariance_weights = False,
                   observation_error = observation_error0, state_time_course = PyNone,
                   covariances = Val c, time_series = PyNone, rng = Val g, means = Unset,
                   standard_deviations = Unset\<rparr>)))"
proof (intro conjI impI)
  show "Simulation_init default_rng generate_states factor n_samples0 n_channels0 n_states0
     sim_varying_means0 None observation_error0 True simulate0 random_seed
   = Inl (NameError ''time_series has not yet been created.'')"
    by (simp add: Simulation_init_def create_covariances_def tilde_cov_weights_def
        lookup_rng_def getattribute_def instance_dict_def Simulation_getattr_def slot_val_def)
next
  assume a: "0 \<le> n_states0 \<and> n_states0 \<le> n_channels0 \<and> default_rng random_seed = Inr g"
  let ?s0 = "\<lparr>n_samples = n_samples0, n_channels = n_channels0, n_states = n_states0,
                sim_varying_means = sim_varying_means0,
                random_covariance_weights = False,
                observation_error = observation_error0,
                state_time_course = PyNone, covariances = Unset, time_series = Unset,
                rng = Unset, means = Unset, standard_deviations = Unset\<rparr>"
  obtain c where c: "create_covariances ?s0 (1 / 10000) = Inr (c, ?s0)"
    using create_covariances_ok[of "1 / 10000" ?s0 "\<lambda>n. 0"] a by auto
  show "\<exists>c. Simulation_init default_rng generate_states factor n_samples0 n_channels0 n_states0
               sim_varying_means0 None observation_error0 False simulate0 random_seed
             = (if simulate0
                then simulate generate_states factor
                  \<lparr>n_samples = n_samples0, n_channels = n_channels0, n_states = n_states0,
                   sim_varying_means = sim_varying_means0, random_covariance_weights = False,
                   observation_error = observation_error0, state_time_course = PyNone,
                   covariances = Val c, time_series = PyNone, rng = Val g, means = Unset,
                   standard_deviations = Unset\<rparr>
                else Inr
                  \<lparr>n_samples = n_samples0, n_channels = n_channels0, n_states = n_states0,
                   sim_varying_means = sim_varying_means0, random_covariance_weights = False,
                   observation_error = observation_error0, state_time_course = PyNone,
                   covariances = Val c, time_series = PyNone, rng = Val g, means = Unset,
                   standard_deviations = Unset\<rparr>)"
    using a by (intro exI[of _ c]) (simp add: Simulation_init_def c)
qed

theorem init_without_generator_witness:
  "Simulation_init (\<lambda>_. Inr (\<lambda>n. 0)) (\<lambda>s. Inr ([], s)) (\<lambda>m. m) 4 2 1 False None 0 True False None
   = Inl (NameError ''time_series has not yet been created.'')
   \<and> Simulation_init (\<lambda>_. Inr (\<lambda>n. 0)) (\<lambda>s. Inr ([], s)) (\<lambda>m. m) 4 2 1 False None 0 False False None
   = Inr \<lparr>n_samples = 4, n_channels = 2, n_states = 1, sim_varying_means = False,
          random_covariance_weights = False, observation_error = 0,
          state_time_course = PyNone,
          covariances = Val [[[10001 / 10002, 0], [0, 1 / 10002]]],
          time_series = PyNone, rng = Val (\<lambda>n. 0), means = Unset,
          standard_deviations = Unset\<rparr>"
proof -
  have ev: "create_covariances
     \<lparr>n_samples = 4, n_channels = 2, n_states = 1, sim_varying_means = False,
      random_covariance_weights = False, observation_error = 0,
      state_time_course = PyNone, covariances = Unset, time_series = Unset,
      rng = Unset, means = Unset, standard_deviations = Unset\<rparr> (1 / 10000)
   = Inr ([[[10001 / 10002, 0], [0, 1 / 10002]]],
     \<lparr>n_samples = 4, n_channels = 2, n_states = 1, sim_varying_means = False,
      random_covariance_weights = False, observation_error = 0,
      state_time_course = PyNone, covariances = Unset, time_series = Unset,
      rng = Unset, means = Unset, standard_deviations = Unset\<rparr>)"
    by (simp add: create_covariances_def tilde_cov_weights_def fill_diagonal_view_def
        covariance_of_weights_def mat_add_def matmul_def transpose_mat_def mat_scale_def eye_def
        mat_div_def trace_def zeros2_def mat_of_def lessThan_Suc numeral_2_eq_2)
  show ?thesis
    using init_without_generator
      [of "\<lambda>_. Inr (\<lambda>n. 0)" "\<lambda>s. Inr ([], s)" "\<lambda>m. m" 4 2 1 False 0 False None "\<lambda>n. 0"]
    by (simp add: Simulation_init_def ev)
qed

text \<open>
  The claim as first stated (the construction succeeds whenever
  \<open>random_covariance_weights=False\<close>) fails with more states than channels.
\<close>

theorem init_structured_counterexample:
  "Simulation_init (\<lambda>_. Inr (\<lambda>n. 0)) (\<lambda>s. Inr ([], s)) (\<lambda>m. m) 10 2 3 False None (1 / 10)
     False False None
   = Inl (ValueError ''All dimensions of input must be of equal length'')"
  by (simp add: Simulation_init_def create_covariances_def tilde_cov_weights_def
      fill_diagonal_view_def)

text \<open>
  Claim C6. Reading \<open>time_series\<close> before the simulation has run should raise; the
  branch of \<open>__getattr__\<close> that raises "time_series has not yet been created." is there
  for that. But \<open>__init__\<close> binds \<open>time_series\<close> to \<open>None\<close>, so the ordinary lookup
  succeeds and \<open>__getattr__\<close> is never called: on an object constructed with
  \<open>simulate=False\<close> the read returns \<open>None\<close>.
\<close>

theorem time_series_before_simulation_is_none:
  "Simulation_init (\<lambda>_. Inr (\<lambda>n. 0)) (\<lambda>s. Inr ([], s)) (\<lambda>m. m) 2 1 1 False (Some [[[1]]]) 0
     False False None
   = Inr \<lparr>n_samples = 2, n_channels = 1, n_states = 1, sim_varying_means = False,
          random_covariance_weights = False, observation_error = 0,
          state_time_course = PyNone, covariances = Val [[[1]]], time_series = PyNone,
          rng = Val (\<lambda>n. 0), means = Unset, standard_deviations = Unset\<rparr>
   \<and> getattribute
       \<lparr>n_samples = 2, n_channels = 1, n_states = 1, sim_varying_means = False,
          random_covariance_weights = False, observation_error = 0,
          state_time_course = PyNone, covariances = Val [[[1]]], time_series = PyNone,
          rng = Val (\<lambda>n. 0), means = Unset, standard_deviations = Unset\<rparr> ''time_series''
     = Inr VNone"
  by (simp add: Simulation_init_def getattribute_def instance_dict_def slot_val_def)

text \<open>
  Claim C1. With \<open>sim_varying_means=True\<close> the means are drawn by
  \<open>normal((n_states, n_channels))\<close>, where the pair is the location and not the size:
  \<open>mus_sim\<close> has two elements, the weighted mean has length two, and
  \<open>multivariate_normal\<close> rejects it against a covariance of three channels. No data
  is sampled around per-mode means.
\<close>

theorem simulate_data_varying_means_raises:
  "simulate_data (\<lambda>m. m)
     \<lparr>n_samples = 1, n_channels = 3, n_states = 2, sim_varying_means = True,
      random_covariance_weights = False, observation_error = 0,
      state_time_course = Val [[1, 0]],
      covariances = Val [[[1, 0, 0], [0, 1, 0], [0, 0, 1]], [[2, 0, 0], [0, 2, 0], [0, 0, 2]]],
      time_series = PyNone, rng = Val (\<lambda>n. 0), means = Unset, standard_deviations = Unset\<rparr>
   = Inl (ValueError ''mean and cov must have same length'')"
  by (simp add: simulate_data_def mus_sim_def lookup_rng_Val normal_loc_def unique_rows_def
      weighted_mean_def weighted_covariance_def multivariate_normal_def bcast_ok_def
      getattribute_def instance_dict_def slot_val_def)

text \<open>
  The branch of zero means, on the same input, samples as the claim says: with a
  generator whose variates are all 1 and the identity for the factor, the only row is
  the weighted mean (zero) plus one row of variates.
\<close>

lemma simulate_data_zero_means_samples:
  "simulate_data (\<lambda>m. m)
     \<lparr>n_samples = 1, n_channels = 3, n_states = 2, sim_varying_means = False,
      random_covariance_weights = False, observation_error = 0,
      state_time_course = Val [[1, 0]],
      covariances = Val [[[1, 0, 0], [0, 1, 0], [0, 0, 1]], [[2, 0, 0], [0, 2, 0], [0, 0, 2]]],
      time_series = PyNone, rng = Val (\<lambda>n. 1), means = Unset, standard_deviations = Unset\<rparr>
   = Inr ([[1, 1, 1]],
     \<lparr>n_samples = 1, n_channels = 3, n_states = 2, sim_varying_means = False,
      random_covariance_weights = False, observation_error = 0,
      state_time_course = Val [[1, 0]],
      covariances = Val [[[1, 0, 0], [0, 1, 0], [0, 0, 1]], [[2, 0, 0], [0, 2, 0], [0, 0, 2]]],
      time_series = PyNone, rng = Val (\<lambda>n. 1), means = Unset, standard_deviations = Unset\<rparr>)"
  by (simp add: simulate_data_def mus_sim_def lookup_rng_Val normal_loc_def unique_rows_def
      weighted_mean_def weighted_covariance_def multivariate_normal_def bcast_ok_def
      getattribute_def instance_dict_def slot_val_def bdim_def
      assign_masked_def normal_scale_def zeros2_def)
    (simp add: mat_of_def bidx_def advance_def lessThan_Suc numeral_2_eq_2 numeral_3_eq_3
      upt_rec[of 0] upt_rec[of "Suc n" for n])


section \<open>Theorems: \<open>standardize\<close>\<close>

lemma z_mean_zero:
  fixes f :: "nat \<Rightarrow> real"
  assumes "0 < T"
  defines "m \<equiv> (\<Sum>t<T. f t) / real T"
  shows "(\<Sum>t<T. (f t - m) / d) / real T = 0"
proof -
  have "(\<Sum>t<T. (f t - m) / d) = ((\<Sum>t<T. f t) - real T * m) / d"
    by (simp add: sum_divide_distrib[symmetric] sum_subtractf)
  also have "real T * m = (\<Sum>t<T. f t)"
    using assms(1) by (simp add: m_def)
  finally show ?thesis by simp
qed

lemma z_std_one:
  fixes f :: "nat \<Rightarrow> real" and m :: real
  assumes "0 < T"
  defines "v \<equiv> (\<Sum>t<T. (f t - m)\<^sup>2) / real T"
  assumes "sqrt v \<noteq> 0"
  shows "sqrt ((\<Sum>t<T. ((f t - m) / sqrt v - 0)\<^sup>2) / real T) = 1"
proof -
  have v0: "0 \<le> v" unfolding v_def by (intro divide_nonneg_nonneg sum_nonneg) simp_all
  with assms(3) have vpos: "0 < v" by (cases "v = 0") auto
  have "(\<Sum>t<T. ((f t - m) / sqrt v - 0)\<^sup>2) = (\<Sum>t<T. (f t - m)\<^sup>2 / v)"
    using v0 by (simp add: power_divide)
  also have "\<dots> = (\<Sum>t<T. (f t - m)\<^sup>2) / v"
    by (simp add: sum_divide_distrib)
  finally have "(\<Sum>t<T. ((f t - m) / sqrt v - 0)\<^sup>2) / real T = v / v"
    by (simp add: v_def)
  then show ?thesis using vpos by simp
qed


lemma getattribute_time_series:
  "time_series s = Val ts \<Longrightarrow> getattribute s ''time_series'' = Inr (VArray ts)"
  by (simp add: getattribute_def instance_dict_def slot_val_def)

lemma getattribute_covariances:
  "covariances s = Val covs \<Longrightarrow> getattribute s ''covariances'' = Inr (VArray3 covs)"
  by (simp add: getattribute_def instance_dict_def slot_val_def)

lemma bidx_less: "i < c \<Longrightarrow> bidx c i = i"
  by (auto simp: bidx_def)

lemma divide_by_outer_square:
  assumes "\<forall>K \<in> set covs. is_square c K"
  shows "divide_by_outer c (map f [0..<c]) covs =
     Inr (map (\<lambda>K. mat_of c c (\<lambda>i j. K ! i ! j / (f i * f j))) covs)"
proof -
  have "map (\<lambda>i. map (\<lambda>j. K ! i ! j / (map f [0..<c] ! bidx c i * map f [0..<c] ! bidx c j))
                  [0..<length (K ! i)]) [0..<length K]
        = mat_of c c (\<lambda>i j. K ! i ! j / (f i * f j))" if "K \<in> set covs" for K
  proof -
    from that assms have K: "length K = c" "\<forall>r \<in> set K. length r = c"
      by (auto simp: is_square_def)
    then have "length (K ! i) = c" if "i < c" for i
      using that by simp
    then show ?thesis
      unfolding mat_of_def K(1) by (auto simp: bidx_less)
  qed
  moreover have "c = 1 \<or> list_all (is_square c) covs"
    using assms by (simp add: list_all_iff)
  ultimately show ?thesis
    unfolding divide_by_outer_def by (simp cong: map_cong)
qed

lemma standardize_result:
  assumes ts: "time_series s = Val ts" and covs: "covariances s = Val covs"
    and ne: "ts \<noteq> []" and rows: "\<forall>row \<in> set ts. length row = c"
    and sd: "\<forall>j<c. col_std ts j \<noteq> 0" and sq: "\<forall>K \<in> set covs. is_square c K"
  shows "standardize s =
     Inr (s\<lparr>means := Val (map (col_mean ts) [0..<c]),
            standard_deviations := Val (map (col_std ts) [0..<c]),
            time_series := Val (z_transform c ts),
            covariances := Val (to_correlations c ts covs)\<rparr>)"
proof -
  have c: "length (hd ts) = c" using ne rows by simp
  have nz: "0 \<notin> set (map (col_std ts) [0..<c])" using sd by auto
  have z: "map (\<lambda>row. map (\<lambda>j. row ! j / map (col_std ts) [0..<c] ! j) [0..<c])
             (map (\<lambda>row. map (\<lambda>j. row ! j - map (col_mean ts) [0..<c] ! j) [0..<c]) ts)
           = z_transform c ts"
    by (simp add: z_transform_def)
  show ?thesis
    unfolding standardize_def
    by (simp add: getattribute_time_series[OF ts] ne c Let_def nz z getattribute_covariances covs
        divide_by_outer_square[OF sq] to_correlations_def del: set_map set_upt map_map)
qed

lemma z_transform_shape:
  "length (z_transform c ts) = length ts"
  "row \<in> set (z_transform c ts) \<Longrightarrow> length row = c"
  "t < length ts \<Longrightarrow> j < c \<Longrightarrow>
     z_transform c ts ! t ! j = (ts ! t ! j - col_mean ts j) / col_std ts j"
  by (auto simp: z_transform_def)

lemma z_transform_mean:
  assumes "ts \<noteq> []" "j < c"
  shows "col_mean (z_transform c ts) j = 0"
proof -
  have "col_mean (z_transform c ts) j
      = (\<Sum>t<length ts. (ts ! t ! j - col_mean ts j) / col_std ts j) / real (length ts)"
    unfolding col_mean_def[of "z_transform c ts"] using assms(2)
    by (simp add: z_transform_shape)
  also have "\<dots> = 0"
    unfolding col_mean_def using assms(1) by (intro z_mean_zero) simp
  finally show ?thesis .
qed

lemma z_transform_std:
  assumes "ts \<noteq> []" "j < c" "col_std ts j \<noteq> 0"
  shows "col_std (z_transform c ts) j = 1"
proof -
  have "col_std (z_transform c ts) j
      = sqrt ((\<Sum>t<length ts. ((ts ! t ! j - col_mean ts j) / col_std ts j - 0)\<^sup>2) / real (length ts))"
    unfolding col_std_def[of "z_transform c ts"] using assms(1,2)
    by (simp add: z_transform_shape z_transform_mean)
  also have "\<dots> = 1"
    unfolding col_std_def[of ts] using assms(1,3)
    by (intro z_std_one) (simp_all add: col_std_def)
  finally show ?thesis .
qed


lemma to_correlations_nth:
  "k < length covs \<Longrightarrow> i < c \<Longrightarrow> j < c \<Longrightarrow>
     to_correlations c ts covs ! k ! i ! j = covs ! k ! i ! j / (col_std ts i * col_std ts j)"
  by (simp add: to_correlations_def)

lemma to_correlations_square:
  "K \<in> set (to_correlations c ts covs) \<Longrightarrow> is_square c K"
  by (auto simp: to_correlations_def)

lemma z_transform_fixed:
  assumes "\<forall>row \<in> set z. length row = c" and "\<forall>j<c. col_mean z j = 0 \<and> col_std z j = 1"
  shows "z_transform c z = z"
proof -
  have "map (\<lambda>j. (row ! j - col_mean z j) / col_std z j) [0..<c] = row" if "row \<in> set z" for row
  proof -
    have "map (\<lambda>j. (row ! j - col_mean z j) / col_std z j) [0..<c] = map (\<lambda>j. row ! j) [0..<c]"
      using assms(2) by (intro map_cong) auto
    also have "\<dots> = row"
      using assms(1) that by (metis map_nth)
    finally show ?thesis .
  qed
  then show ?thesis
    unfolding z_transform_def by (simp cong: map_cong)
qed

lemma to_correlations_fixed:
  assumes "\<forall>K \<in> set covs. is_square c K" and "\<forall>j<c. col_std z j = 1"
  shows "to_correlations c z covs = covs"
proof -
  have "mat_of c c (\<lambda>i j. K ! i ! j / (col_std z i * col_std z j)) = K" if "K \<in> set covs" for K
  proof -
    from that assms(1) have K: "length K = c" "\<forall>r \<in> set K. length r = c"
      by (auto simp: is_square_def)
    have "mat_of c c (\<lambda>i j. K ! i ! j / (col_std z i * col_std z j)) ! i = K ! i" if "i < c" for i
    proof -
      have "map (\<lambda>j. K ! i ! j / (col_std z i * col_std z j)) [0..<c] = map (\<lambda>j. K ! i ! j) [0..<c]"
        using assms(2) that by (intro map_cong) auto
      also have "\<dots> = K ! i"
        using K that by (metis map_nth nth_mem)
      finally show ?thesis using that by simp
    qed
    then show ?thesis
      using K(1) by (intro nth_equalityI) auto
  qed
  then show ?thesis
    unfolding to_correlations_def by (simp cong: map_cong)
qed

text \<open>
  Claim C3, as amended. On a simulation whose time series has at least one row and no
  channel of standard deviation zero, and whose covariances are square of the size of
  the channels, a first call to \<open>standardize\<close> replaces the time series by its
  z-transform, so that every channel has mean 0 and standard deviation 1 (exactly, over
  the reals), and divides the entry \<open>(i, j)\<close> of every covariance by the product of the
  standard deviations of the channels \<open>i\<close> and \<open>j\<close>. It also stores the means and the
  standard deviations of the original series in the attributes \<open>means\<close> and
  \<open>standard_deviations\<close>; every other field is left as it was.
\<close>

theorem standardize_once:
  assumes "time_series s = Val ts" and "covariances s = Val covs"
    and "ts \<noteq> []" and "\<forall>row \<in> set ts. length row = c"
    and "\<forall>j<c. col_std ts j \<noteq> 0" and "\<forall>K \<in> set covs. is_square c K"
  shows "standardize s =
           Inr (s\<lparr>means := Val (map (col_mean ts) [0..<c]),
                  standard_deviations := Val (map (col_std ts) [0..<c]),
                  time_series := Val (z_transform c ts),
                  covariances := Val (to_correlations c ts covs)\<rparr>)
     \<and> length (z_transform c ts) = length ts
     \<and> (\<forall>t<length ts. \<forall>j<c.
           z_transform c ts ! t ! j = (ts ! t ! j - col_mean ts j) / col_std ts j)
     \<and> (\<forall>j<c. col_mean (z_transform c ts) j = 0 \<and> col_std (z_transform c ts) j = 1)
     \<and> length (to_correlations c ts covs) = length covs
     \<and> (\<forall>k<length covs. \<forall>i<c. \<forall>j<c.
           to_correlations c ts covs ! k ! i ! j
             = covs ! k ! i ! j / (col_std ts i * col_std ts j))"
  using assms
  by (simp add: standardize_result z_transform_shape z_transform_mean z_transform_std
      to_correlations_nth) (simp add: to_correlations_def)

text \<open>
  Claim C4, as amended. There is no guard against a second call: after a first call
  that succeeded (under the conditions of C3), a second call to \<open>standardize\<close> does
  not raise. It standardizes again with the statistics of the standardized series,
  which are mean 0 and standard deviation 1: over the reals the time series and the
  covariances stay as the first call left them, and \<open>means\<close> and
  \<open>standard_deviations\<close> are overwritten with zeros and ones.
\<close>

theorem standardize_twice:
  assumes "time_series s = Val ts" and "covariances s = Val covs"
    and "ts \<noteq> []" and "\<forall>row \<in> set ts. length row = c"
    and "\<forall>j<c. col_std ts j \<noteq> 0" and "\<forall>K \<in> set covs. is_square c K"
    and "standardize s = Inr s1"
  shows "standardize s1 =
           Inr (s1\<lparr>means := Val (replicate c 0), standard_deviations := Val (replicate c 1)\<rparr>)"
proof -
  let ?z = "z_transform c ts" and ?r = "to_correlations c ts covs"
  have s1: "s1 = s\<lparr>means := Val (map (col_mean ts) [0..<c]),
                  standard_deviations := Val (map (col_std ts) [0..<c]),
                  time_series := Val ?z, covariances := Val ?r\<rparr>"
    using standardize_result[OF assms(1-6)] assms(7) by simp
  have ts1: "time_series s1 = Val ?z" and c1: "covariances s1 = Val ?r"
    by (simp_all add: s1)
  have ne: "?z \<noteq> []" using assms(3) by (simp add: z_transform_def)
  have rows: "\<forall>row \<in> set ?z. length row = c" by (simp add: z_transform_shape)
  have stat: "\<forall>j<c. col_mean ?z j = 0 \<and> col_std ?z j = 1"
    using assms(3,5) by (simp add: z_transform_mean z_transform_std)
  then have sd: "\<forall>j<c. col_std ?z j \<noteq> 0" by simp
  have sq: "\<forall>K \<in> set ?r. is_square c K" by (simp add: to_correlations_square)
  have m0: "map (col_mean ?z) [0..<c] = replicate c 0"
    using stat by (intro nth_equalityI) auto
  have d1: "map (col_std ?z) [0..<c] = replicate c 1"
    using stat by (intro nth_equalityI) auto
  have zz: "z_transform c ?z = ?z"
    using rows stat by (rule z_transform_fixed)
  have rr: "to_correlations c ?z ?r = ?r"
    using sq stat by (intro to_correlations_fixed) auto
  show ?thesis
    unfolding standardize_result[OF ts1 c1 ne rows sd sq] m0 d1 zz rr
    by (simp add: s1)
qed


lemma example_series_statistics:
  "col_mean [[1, 0], [3, 4]] 0 = 2" "col_mean [[1, 0], [3, 4]] (Suc 0) = 2"
  "col_std [[1, 0], [3, 4]] 0 = 1" "col_std [[1, 0], [3, 4]] (Suc 0) = 2"
  by (simp_all add: col_std_def col_mean_def lessThan_Suc)

lemma example_standardized_statistics:
  "col_mean [[- 1, - 1], [1, 1]] 0 = 0" "col_mean [[- 1, - 1], [1, 1]] (Suc 0) = 0"
  "col_std [[- 1, - 1], [1, 1]] 0 = 1" "col_std [[- 1, - 1], [1, 1]] (Suc 0) = 1"
  by (simp_all add: col_std_def col_mean_def lessThan_Suc)

lemma upt_2: "[0..<2] = [0, Suc 0]"
  by (simp add: upt_rec)

lemma example_z_transform:
  "z_transform 2 [[1, 0], [3, 4]] = [[- 1, - 1], [1, 1]]"
  "to_correlations 2 [[1, 0], [3, 4]] [[[2, 1], [1, 4]]] = [[[2, 1 / 2], [1 / 2, 1]]]"
  by (simp_all add: z_transform_def to_correlations_def mat_of_def upt_2
      example_series_statistics)

theorem standardize_once_witness:
  "standardize
     \<lparr>n_samples = 2, n_channels = 2, n_states = 1, sim_varying_means = False,
      random_covariance_weights = False, observation_error = 0,
      state_time_course = Val [[1], [1]], covariances = Val [[[2, 1], [1, 4]]],
      time_series = Val [[1, 0], [3, 4]], rng = Val (\<lambda>n. 0), means = Unset,
      standard_deviations = Unset\<rparr>
   = Inr
     \<lparr>n_samples = 2, n_channels = 2, n_states = 1, sim_varying_means = False,
      random_covariance_weights = False, observation_error = 0,
      state_time_course = Val [[1], [1]], covariances = Val [[[2, 1 / 2], [1 / 2, 1]]],
      time_series = Val [[- 1, - 1], [1, 1]], rng = Val (\<lambda>n. 0), means = Val [2, 2],
      standard_deviations = Val [1, 2]\<rparr>
   \<and> col_mean [[- 1, - 1], [1, 1]] 0 = 0 \<and> col_std [[- 1, - 1], [1, 1]] 0 = 1"
proof -
  have "\<forall>j<2. col_std [[1, 0], [3, 4]] j \<noteq> 0"
    by (auto simp: less_2_cases_iff example_series_statistics)
  moreover have "\<forall>K \<in> set [[[2, 1], [1, 4 :: real]]]. is_square 2 K"
    by (simp add: is_square_def)
  ultimately show ?thesis
    using standardize_once [of
      "\<lparr>n_samples = 2, n_channels = 2, n_states = 1, sim_varying_means = False,
      random_covariance_weights = False, observation_error = 0,
      state_time_course = Val [[1], [1]], covariances = Val [[[2, 1], [1, 4]]],
      time_series = Val [[1, 0], [3, 4]], rng = Val (\<lambda>n. 0), means = Unset,
      standard_deviations = Unset\<rparr>"
      "[[1, 0], [3, 4]]" "[[[2, 1], [1, 4]]]" 2]
    by (simp add: example_z_transform upt_2 example_series_statistics)
qed

text \<open>
  The claim as first stated fails twice: the call creates the attributes \<open>means\<close>
  and \<open>standard_deviations\<close>, so not all other fields are unchanged; and a channel
  that is constant has standard deviation zero, so that its standardized values are
  zero divided by zero and its mean and standard deviation are not near 0 and 1.
\<close>

theorem standardize_once_counterexample:
  "standardize
     \<lparr>n_samples = 2, n_channels = 2, n_states = 1, sim_varying_means = False,
      random_covariance_weights = False, observation_error = 0,
      state_time_course = Val [[1], [1]], covariances = Val [[[2, 1], [1, 4]]],
      time_series = Val [[1, 0], [3, 4]], rng = Val (\<lambda>n. 0), means = Unset,
      standard_deviations = Unset\<rparr>
   = Inr
     \<lparr>n_samples = 2, n_channels = 2, n_states = 1, sim_varying_means = False,
      random_covariance_weights = False, observation_error = 0,
      state_time_course = Val [[1], [1]], covariances = Val [[[2, 1 / 2], [1 / 2, 1]]],
      time_series = Val [[- 1, - 1], [1, 1]], rng = Val (\<lambda>n. 0), means = Val [2, 2],
      standard_deviations = Val [1, 2]\<rparr>
   \<and> \<lparr>n_samples = 2, n_channels = 2, n_states = 1, sim_varying_means = False,
      random_covariance_weights = False, observation_error = 0,
      state_time_course = Val [[1], [1]], covariances = Val [[[2, 1 / 2], [1 / 2, 1]]],
      time_series = Val [[- 1, - 1], [1, 1]], rng = Val (\<lambda>n. 0), means = Val [2, 2],
      standard_deviations = Val [1, 2]\<rparr>
     \<noteq> \<lparr>n_samples = 2, n_channels = 2, n_states = 1, sim_varying_means = False,
      random_covariance_weights = False, observation_error = 0,
      state_time_course = Val [[1], [1]], covariances = Val [[[2, 1 / 2], [1 / 2, 1]]],
      time_series = Val [[- 1, - 1], [1, 1]], rng = Val (\<lambda>n. 0), means = Unset,
      standard_deviations = Unset\<rparr>
   \<and> standardize
     \<lparr>n_samples = 2, n_channels = 2, n_states = 1, sim_varying_means = False,
      random_covariance_weights = False, observation_error = 0,
      state_time_course = Val [[1], [1]], covariances = Val [[[2, 1], [1, 4]]],
      time_series = Val [[5, 7], [5, 8]], rng = Val (\<lambda>n. 0), means = Unset,
      standard_deviations = Unset\<rparr>
   = Inl NotFinite"
proof -
  have "\<forall>j<2. col_std [[1, 0], [3, 4]] j \<noteq> 0"
    by (auto simp: less_2_cases_iff example_series_statistics)
  moreover have "\<forall>K \<in> set [[[2, 1], [1, 4 :: real]]]. is_square 2 K"
    by (simp add: is_square_def)
  moreover have "standardize
     \<lparr>n_samples = 2, n_channels = 2, n_states = 1, sim_varying_means = False,
      random_covariance_weights = False, observation_error = 0,
      state_time_course = Val [[1], [1]], covariances = Val [[[2, 1], [1, 4]]],
      time_series = Val [[5, 7], [5, 8]], rng = Val (\<lambda>n. 0), means = Unset,
      standard_deviations = Unset\<rparr>
   = Inl NotFinite"
    by (simp add: standardize_def getattribute_time_series upt_2 col_std_def col_mean_def
        lessThan_Suc Let_def del: set_map set_upt)
  ultimately show ?thesis
    using standardize_result [of
      "\<lparr>n_samples = 2, n_channels = 2, n_states = 1, sim_varying_means = False,
      random_covariance_weights = False, observation_error = 0,
      state_time_course = Val [[1], [1]], covariances = Val [[[2, 1], [1, 4]]],
      time_series = Val [[1, 0], [3, 4]], rng = Val (\<lambda>n. 0), means = Unset,
      standard_deviations = Unset\<rparr>"
      "[[1, 0], [3, 4]]" "[[[2, 1], [1, 4]]]" 2]
    by (simp add: example_z_transform upt_2 example_series_statistics)
qed

lemma standardize_example:
  "standardize
     \<lparr>n_samples = 2, n_channels = 2, n_states = 1, sim_varying_means = False,
      random_covariance_weights = False, observation_error = 0,
      state_time_course = Val [[1], [1]], covariances = Val [[[2, 1], [1, 4]]],
      time_series = Val [[1, 0], [3, 4]], rng = Val (\<lambda>n. 0), means = Unset,
      standard_deviations = Unset\<rparr>
   = Inr
     \<lparr>n_samples = 2, n_channels = 2, n_states = 1, sim_varying_means = False,
      random_covariance_weights = False, observation_error = 0,
      state_time_course = Val [[1], [1]], covariances = Val [[[2, 1 / 2], [1 / 2, 1]]],
      time_series = Val [[- 1, - 1], [1, 1]], rng = Val (\<lambda>n. 0), means = Val [2, 2],
      standard_deviations = Val [1, 2]\<rparr>"
proof -
  have "\<forall>j<2. col_std [[1, 0], [3, 4]] j \<noteq> 0"
    by (auto simp: less_2_cases_iff example_series_statistics)
  moreover have "\<forall>K \<in> set [[[2, 1], [1, 4 :: real]]]. is_square 2 K"
    by (simp add: is_square_def)
  ultimately show ?thesis
    using standardize_result [of
      "\<lparr>n_samples = 2, n_channels = 2, n_states = 1, sim_varying_means = False,
      random_covariance_weights = False, observation_error = 0,
      state_time_course = Val [[1], [1]], covariances = Val [[[2, 1], [1, 4]]],
      time_series = Val [[1, 0], [3, 4]], rng = Val (\<lambda>n. 0), means = Unset,
      standard_deviations = Unset\<rparr>"
      "[[1, 0], [3, 4]]" "[[[2, 1], [1, 4]]]" 2]
    by (simp add: example_z_transform upt_2 example_series_statistics)
qed

theorem standardize_twice_witness:
  "standardize
     \<lparr>n_samples = 2, n_channels = 2, n_states = 1, sim_varying_means = False,
      random_covariance_weights = False, observation_error = 0,
      state_time_course = Val [[1], [1]], covariances = Val [[[2, 1 / 2], [1 / 2, 1]]],
      time_series = Val [[- 1, - 1], [1, 1]], rng = Val (\<lambda>n. 0), means = Val [2, 2],
      standard_deviations = Val [1, 2]\<rparr>
   = Inr
     \<lparr>n_samples = 2, n_channels = 2, n_states = 1, sim_varying_means = False,
      random_covariance_weights = False, observation_error = 0,
      state_time_course = Val [[1], [1]], covariances = Val [[[2, 1 / 2], [1 / 2, 1]]],
      time_series = Val [[- 1, - 1], [1, 1]], rng = Val (\<lambda>n. 0), means = Val [0, 0],
      standard_deviations = Val [1, 1]\<rparr>"
proof -
  have "\<forall>j<2. col_std [[1, 0], [3, 4]] j \<noteq> 0"
    by (auto simp: less_2_cases_iff example_series_statistics)
  moreover have "\<forall>K \<in> set [[[2, 1], [1, 4 :: real]]]. is_square 2 K"
    by (simp add: is_square_def)
  ultimately show ?thesis
    using standardize_twice [of
      "\<lparr>n_samples = 2, n_channels = 2, n_states = 1, sim_varying_means = False,
      random_covariance_weights = False, observation_error = 0,
      state_time_course = Val [[1], [1]], covariances = Val [[[2, 1], [1, 4]]],
      time_series = Val [[1, 0], [3, 4]], rng = Val (\<lambda>n. 0), means = Unset,
      standard_deviations = Unset\<rparr>"
      "[[1, 0], [3, 4]]" "[[[2, 1], [1, 4]]]" 2
      "\<lparr>n_samples = 2, n_channels = 2, n_states = 1, sim_varying_means = False,
      random_covariance_weights = False, observation_error = 0,
      state_time_course = Val [[1], [1]], covariances = Val [[[2, 1 / 2], [1 / 2, 1]]],
      time_series = Val [[- 1, - 1], [1, 1]], rng = Val (\<lambda>n. 0), means = Val [2, 2],
      standard_deviations = Val [1, 2]\<rparr>"] standardize_example
    by (simp add: numeral_2_eq_2)
qed

lemma standardize_example_again:
  "standardize
     \<lparr>n_samples = 2, n_channels = 2, n_states = 1, sim_varying_means = False,
      random_covariance_weights = False, observation_error = 0,
      state_time_course = Val [[1], [1]], covariances = Val [[[2, 1 / 2], [1 / 2, 1]]],
      time_series = Val [[- 1, - 1], [1, 1]], rng = Val (\<lambda>n. 0), means = Val [2, 2],
      standard_deviations = Val [1, 2]\<rparr>
   = Inr
     \<lparr>n_samples = 2, n_channels = 2, n_states = 1, sim_varying_means = False,
      random_covariance_weights = False, observation_error = 0,
      state_time_course = Val [[1], [1]], covariances = Val [[[2, 1 / 2], [1 / 2, 1]]],
      time_series = Val [[- 1, - 1], [1, 1]], rng = Val (\<lambda>n. 0), means = Val [0, 0],
      standard_deviations = Val [1, 1]\<rparr>"
proof -
  have "\<forall>j<2. col_std [[- 1, - 1], [1, 1]] j \<noteq> 0"
    by (auto simp: less_2_cases_iff example_standardized_statistics)
  moreover have "\<forall>K \<in> set [[[2, 1 / 2], [1 / 2, 1 :: real]]]. is_square 2 K"
    by (simp add: is_square_def)
  ultimately show ?thesis
    using standardize_result [of
      "\<lparr>n_samples = 2, n_channels = 2, n_states = 1, sim_varying_means = False,
      random_covariance_weights = False, observation_error = 0,
      state_time_course = Val [[1], [1]], covariances = Val [[[2, 1 / 2], [1 / 2, 1]]],
      time_series = Val [[- 1, - 1], [1, 1]], rng = Val (\<lambda>n. 0), means = Val [2, 2],
      standard_deviations = Val [1, 2]\<rparr>"
      "[[- 1, - 1], [1, 1]]" "[[[2, 1 / 2], [1 / 2, 1]]]" 2]
    by (simp add: z_transform_def to_correlations_def mat_of_def upt_2
        example_standardized_statistics)
qed

text \<open>
  The claim as first stated (a second call raises) fails: both calls return.
\<close>

theorem standardize_twice_counterexample:
  "standardize
     \<lparr>n_samples = 2, n_channels = 2, n_states = 1, sim_varying_means = False,
      random_covariance_weights = False, observation_error = 0,
      state_time_course = Val [[1], [1]], covariances = Val [[[2, 1], [1, 4]]],
      time_series = Val [[1, 0], [3, 4]], rng = Val (\<lambda>n. 0), means = Unset,
      standard_deviations = Unset\<rparr>
   = Inr
     \<lparr>n_samples = 2, n_channels = 2, n_states = 1, sim_varying_means = False,
      random_covariance_weights = False, observation_error = 0,
      state_time_course = Val [[1], [1]], covariances = Val [[[2, 1 / 2], [1 / 2, 1]]],
      time_series = Val [[- 1, - 1], [1, 1]], rng = Val (\<lambda>n. 0), means = Val [2, 2],
      standard_deviations = Val [1, 2]\<rparr>
   \<and> standardize
     \<lparr>n_samples = 2, n_channels = 2, n_states = 1, sim_varying_means = False,
      random_covariance_weights = False, observation_error = 0,
      state_time_course = Val [[1], [1]], covariances = Val [[[2, 1 / 2], [1 / 2, 1]]],
      time_series = Val [[- 1, - 1], [1, 1]], rng = Val (\<lambda>n. 0), means = Val [2, 2],
      standard_deviations = Val [1, 2]\<rparr>
   = Inr
     \<lparr>n_samples = 2, n_channels = 2, n_states = 1, sim_varying_means = False,
      random_covariance_weights = False, observation_error = 0,
      state_time_course = Val [[1], [1]], covariances = Val [[[2, 1 / 2], [1 / 2, 1]]],
      time_series = Val [[- 1, - 1], [1, 1]], rng = Val (\<lambda>n. 0), means = Val [0, 0],
      standard_deviations = Val [1, 1]\<rparr>"
  using standardize_example standardize_example_again by simp

section \<open>Theorems: the congruence transform\<close>

lemma congruence_nth:
  assumes "i < n" "j < n"
  shows "matmul n (matmul n g f) (transpose_mat n g) ! i ! j
     = (\<Sum>l<n. \<Sum>k<n. g ! i ! k * f ! k ! l * g ! j ! l)"
  using assms by (simp add: matmul_def transpose_mat_def sum_distrib_right)

lemma congruence_quadratic:
  fixes x :: "nat \<Rightarrow> real" and g f :: "nat \<Rightarrow> nat \<Rightarrow> real"
  shows "(\<Sum>i<n. \<Sum>j<n. x i * (\<Sum>l<n. \<Sum>k<n. g i k * f k l * g j l) * x j)
       = (\<Sum>k<n. \<Sum>l<n. (\<Sum>i<n. x i * g i k) * f k l * (\<Sum>j<n. x j * g j l))"
proof -
  let ?T = "\<lambda>i j k l. x i * g i k * f k l * (x j * g j l)"
  have "(\<Sum>k<n. \<Sum>l<n. (\<Sum>i<n. x i * g i k) * f k l * (\<Sum>j<n. x j * g j l))
      = (\<Sum>k<n. \<Sum>l<n. \<Sum>j<n. \<Sum>i<n. ?T i j k l)"
    by (simp add: sum_distrib_right sum_distrib_left)
  also have "\<dots> = (\<Sum>k<n. \<Sum>l<n. \<Sum>i<n. \<Sum>j<n. ?T i j k l)"
    by (rule sum.cong[OF refl], rule sum.cong[OF refl], rule sum.swap)
  also have "\<dots> = (\<Sum>k<n. \<Sum>i<n. \<Sum>l<n. \<Sum>j<n. ?T i j k l)"
    by (rule sum.cong[OF refl], rule sum.swap)
  also have "\<dots> = (\<Sum>i<n. \<Sum>k<n. \<Sum>l<n. \<Sum>j<n. ?T i j k l)"
    by (rule sum.swap)
  also have "\<dots> = (\<Sum>i<n. \<Sum>k<n. \<Sum>j<n. \<Sum>l<n. ?T i j k l)"
    by (rule sum.cong[OF refl], rule sum.cong[OF refl], rule sum.swap)
  also have "\<dots> = (\<Sum>i<n. \<Sum>j<n. \<Sum>k<n. \<Sum>l<n. ?T i j k l)"
    by (rule sum.cong[OF refl], rule sum.swap)
  also have "\<dots> = (\<Sum>i<n. \<Sum>j<n. \<Sum>l<n. \<Sum>k<n. ?T i j k l)"
    by (rule sum.cong[OF refl], rule sum.cong[OF refl], rule sum.swap)
  also have "\<dots> = (\<Sum>i<n. \<Sum>j<n. x i * (\<Sum>l<n. \<Sum>k<n. g i k * f k l * g j l) * x j)"
    by (simp add: sum_distrib_left sum_distrib_right mult_ac)
  finally show ?thesis by simp
qed

lemma congruence_quad_form:
  "quad_form n (matmul n (matmul n g f) (transpose_mat n g)) x
     = quad_form n f (map (\<lambda>k. \<Sum>i<n. x ! i * g ! i ! k) [0..<n])"
proof -
  have "quad_form n (matmul n (matmul n g f) (transpose_mat n g)) x
      = (\<Sum>i<n. \<Sum>j<n. x ! i * (\<Sum>l<n. \<Sum>k<n. g ! i ! k * f ! k ! l * g ! j ! l) * x ! j)"
    unfolding quad_form_def by (simp add: congruence_nth)
  also have "\<dots> = (\<Sum>k<n. \<Sum>l<n. (\<Sum>i<n. x ! i * g ! i ! k) * f ! k ! l * (\<Sum>j<n. x ! j * g ! j ! l))"
    by (rule congruence_quadratic)
  also have "\<dots> = quad_form n f (map (\<lambda>k. \<Sum>i<n. x ! i * g ! i ! k) [0..<n])"
    unfolding quad_form_def by simp
  finally show ?thesis .
qed

lemma congruence_symmetric:
  assumes "symmetric n f"
  shows "symmetric n (matmul n (matmul n g f) (transpose_mat n g))"
  unfolding symmetric_def
proof (intro allI impI)
  fix i j assume ij: "i < n" "j < n"
  have "(\<Sum>l<n. \<Sum>k<n. g ! i ! k * f ! k ! l * g ! j ! l)
      = (\<Sum>k<n. \<Sum>l<n. g ! i ! k * f ! k ! l * g ! j ! l)"
    by (rule sum.swap)
  also have "\<dots> = (\<Sum>k<n. \<Sum>l<n. g ! j ! l * f ! l ! k * g ! i ! k)"
    using assms by (intro sum.cong refl) (simp add: symmetric_def mult_ac)
  finally show "matmul n (matmul n g f) (transpose_mat n g) ! i ! j
      = matmul n (matmul n g f) (transpose_mat n g) ! j ! i"
    using ij by (simp add: congruence_nth)
qed

lemma congruence_psd:
  assumes "positive_semidefinite n f"
  shows "positive_semidefinite n (matmul n (matmul n g f) (transpose_mat n g))"
  using assms unfolding positive_semidefinite_def
  by (simp add: congruence_quad_form)

text \<open>
  Claim C5. At every timestep \<open>t\<close>, if \<open>F[t]\<close> is symmetric and positive semidefinite,
  then for any real matrix \<open>G[t]\<close>, singular or not, the combined matrix
  \<open>C[t] = G[t] \<cdot> F[t] \<cdot> G[t]\<^sup>T\<close> is symmetric and positive semidefinite.
\<close>

theorem combine_preserves_psd:
  assumes "t < length G" and "t < length F"
    and "symmetric n (F ! t)" and "positive_semidefinite n (F ! t)"
  shows "is_square n (combine n G F ! t)
     \<and> (\<forall>i<n. \<forall>j<n. combine n G F ! t ! i ! j
           = (\<Sum>l<n. \<Sum>k<n. G ! t ! i ! k * F ! t ! k ! l * G ! t ! j ! l))
     \<and> symmetric n (combine n G F ! t)
     \<and> positive_semidefinite n (combine n G F ! t)"
proof -
  have "combine n G F ! t = matmul n (matmul n (G ! t) (F ! t)) (transpose_mat n (G ! t))"
    using assms(1,2) by (simp add: combine_def)
  then show ?thesis
    using assms(3,4)
    by (simp add: congruence_nth congruence_symmetric congruence_psd) (simp add: matmul_def)
qed


theorem combine_preserves_psd_witness:
  "combine 2 [[[1, 1], [0, 0]]] [[[1, 0], [0, 1]]] = [[[2, 0], [0, 0]]]
   \<and> symmetric 2 [[2, 0], [0, 0]]
   \<and> positive_semidefinite 2 [[2, 0], [0, 0]]"
proof -
  have ev: "combine 2 [[[1, 1], [0, 0]]] [[[1, 0], [0, 1]]] = [[[2, 0], [0, 0]]]"
    by (simp add: combine_def matmul_def transpose_mat_def mat_of_def upt_2 lessThan_Suc
        numeral_2_eq_2)
  have s: "symmetric 2 ([[[1, 0], [0, 1]]] ! 0)"
    by (auto simp: symmetric_def less_2_cases_iff)
  have "0 \<le> quad_form 2 [[1, 0], [0, 1]] x" for x
    by (simp add: quad_form_def lessThan_Suc numeral_2_eq_2)
  then have p: "positive_semidefinite 2 ([[[1, 0], [0, 1]]] ! 0)"
    by (simp add: positive_semidefinite_def)
  show ?thesis
    using combine_preserves_psd [of 0 "[[[1, 1], [0, 0]]]" "[[[1, 0], [0, 1]]]" 2, OF _ _ s p] ev
    by simp
qed

text \<open>
  In the model structure the covariance that reaches the loss is this combination of
  the two mixed tensors.
\<close>

lemma model_structure_covariance:
  "model_structure c ll_loss_layer mu E D data alpha gamma =
     ll_loss_layer data (mix_vectors c alpha mu)
       (combine c (mix_matrices c alpha E) (mix_matrices c gamma D))"
  by (simp add: model_structure_def)

end
